theory Spec2Isabelle
  imports Main "HOL-Library.Word" "HOL-Library.Sublist" "HOL-Library.Multiset"
begin

section \<open>The word lists\<close>

text \<open>
  The module builds its two word lists from a list literal followed by calls of
  \<^verbatim>\<open>extend\<close>. Each literal is transcribed as it stands in the source, in the
  source's order and with the source's duplicates.
\<close>

definition ADJECTIVES_literal :: "string list" where
  "ADJECTIVES_literal = [
    ''low'', ''dim'', ''open'', ''soft'', ''vast'', ''calm'', ''deep'', ''slow'', ''pure'',
    ''worn'', ''easy'', ''cool'', ''airy'', ''bare'', ''late'', ''lean'', ''still'', ''empty'',
    ''quiet'', ''whole'', ''light'', ''clear'', ''aware'', ''loose'', ''fresh'', ''plain'',
    ''faint'', ''lowly'', ''woven'', ''mossy'', ''early'', ''simple'', ''humble'', ''rooted'',
    ''gentle'', ''subtle'', ''silent'', ''supple'', ''hidden'', ''serene'', ''tender'',
    ''folded'', ''modest'', ''honest'', ''sparse'', ''fallow'', ''dimlit'', ''spaced'',
    ''silted'', ''shaded'', ''veiled'', ''hollow'', ''mellow'', ''flowing'', ''natural'',
    ''patient'', ''present'', ''rounded'', ''playful'', ''aligned'', ''bending'', ''unbound'',
    ''ancient'', ''letting'', ''swaying'', ''distant'', ''willing'', ''lowborn'', ''moonlit'',
    ''slender'', ''untamed'', ''cracked'', ''resting'', ''soothed'', ''dawnlit'', ''settled'',
    ''leafing'', ''gentled'', ''unforced'', ''yielding'', ''grounded'', ''balanced'',
    ''flexible'', ''timeless'', ''dwelling'', ''fragrant'', ''tranquil'', ''gracious'',
    ''seasoned'', ''drifting'', ''watchful'', ''receding'', ''floating'', ''unsought'',
    ''gentlest'', ''seasonal'', ''spiraled'', ''shadowed'', ''pathless'', ''barefoot'',
    ''returning'', ''wandering'', ''weathered'', ''welcoming'', ''listening'', ''unhurried'',
    ''breathing'', ''receptive'', ''submerged'', ''limber'', ''resting'', ''soothed'',
    ''settled'', ''hidden'', ''deepest'', ''lightest'', ''emptiest'', ''earliest'', ''latest'',
    ''softest'', ''stillest'', ''quietest'', ''gentlest'', ''barest'', ''oldest'', ''simplest'',
    ''deepening'', ''bright'', ''shifting'', ''softening'', ''cooling'', ''warming'',
    ''floating'', ''wandering'', ''settling'', ''stilling'', ''spreading'', ''clearing'']"

definition ADJECTIVES_extend1 :: "string list" where
  "ADJECTIVES_extend1 = [
    ''clearer'', ''lighter'', ''slower'', ''deeper'', ''softer'', ''emptier'', ''vaster'',
    ''cooler'', ''quieter'', ''warmer'', ''simpler'', ''purer'', ''looser'', ''steadier'',
    ''smoother'', ''broader'', ''lower'', ''lighter'', ''gentler'', ''older'', ''younger'',
    ''brighter'', ''dimmed'', ''rooting'', ''bending'', ''flowing'', ''glimmering'',
    ''settling'', ''wandering'', ''drifting'', ''stilling'', ''listening'', ''welcoming'',
    ''shifting'', ''dimming'', ''spreading'', ''loosening'', ''warming'', ''cooling'',
    ''opening'', ''closing'', ''stretching'', ''thinning'', ''clearing'', ''rising'',
    ''lowering'', ''folding'', ''gathering'', ''quieting'', ''softening'', ''pausing'',
    ''stilling'', ''waiting'', ''breathing'', ''touching'', ''holding'', ''resting'',
    ''yielding'', ''balancing'', ''spanning'', ''swaying'', ''hovering'', ''leaning'',
    ''lingering'', ''hollowing'', ''brimming'', ''spilling'', ''sheltering'', ''blooming'',
    ''fading'', ''returning'', ''renewing'', ''opening'', ''closing'', ''growing'',
    ''shrinking'', ''waning'', ''waxing'', ''stilling'', ''sinking'', ''rising'',
    ''broadening'', ''narrowing'', ''stilling'', ''lengthening'', ''shortening'', ''deepening'',
    ''shallowing'', ''anchoring'', ''loosening'', ''softening'', ''hardening'', ''filling'',
    ''emptying'', ''gleaming'', ''shadowing'', ''clouding'', ''clearing'', ''grounding'',
    ''lifting'', ''stretching'', ''breathing'', ''soothing'', ''mending'']"

definition ADJECTIVES_extend2 :: "string list" where
  "ADJECTIVES_extend2 = [
    ''leafy'', ''misty'', ''woody'', ''stony'', ''muddy'', ''earthy'', ''windy'', ''frosty'',
    ''dewy'', ''dusty'', ''cloudy'', ''starry'', ''flowery'', ''rooted'', ''branching'',
    ''budding'', ''ripening'', ''shedding'', ''drooping'', ''curling'', ''drifting'',
    ''floating'', ''hovering'', ''pooling'', ''soaking'', ''melting'', ''fading'', ''glowing'',
    ''gleaming'', ''shimmering'', ''twining'', ''spiraling'', ''branching'', ''arching'',
    ''swaying'', ''reaching'', ''climbing'', ''crawling'', ''settling'', ''weathering'',
    ''softening'', ''hardening'', ''brightening'', ''darkening'', ''warming'', ''cooling'',
    ''soothing'', ''stilling'', ''quieting'', ''calming'', ''stretching'', ''spreading'',
    ''deepening'', ''broadening'', ''narrowing'', ''lengthening'', ''shortening'',
    ''loosening'', ''anchoring'', ''grounding'', ''sinking'', ''rising'', ''waxing'',
    ''waning'', ''draining'', ''filling'', ''balancing'', ''centering'', ''resting'',
    ''waiting'', ''blooming'', ''rippling'', ''trickling'', ''flowing'', ''pouring'',
    ''streaming'', ''raining'', ''snowing'', ''freezing'', ''thawing'', ''covering'',
    ''uncovering'', ''revealing'', ''veiling'', ''shadowing'', ''clearing'', ''opening'',
    ''closing'', ''forming'', ''dissolving'', ''returning'', ''pausing'', ''watching'',
    ''listening'', ''wandering'', ''roaming'', ''meandering'', ''lingering'', ''drifting'',
    ''spanning'']"

definition ADJECTIVES_extend3 :: "string list" where
  "ADJECTIVES_extend3 = [
    ''rocky'', ''sandy'', ''brambly'', ''thorny'', ''grassy'', ''shadowy'', ''foggy'', ''hazy'',
    ''smoky'', ''icy'', ''glassy'', ''pebbly'', ''knotted'', ''twisted'', ''woven'',
    ''sinuous'', ''undulating'', ''layered'', ''banded'', ''ringed'', ''speckled'', ''spotted'',
    ''flecked'', ''pitted'', ''creased'', ''furrowed'', ''etched'', ''veined'', ''ridged'',
    ''weathered'', ''ancient'', ''primordial'', ''eldest'', ''immemorial'', ''eternal'',
    ''boundless'', ''measureless'', ''endless'', ''infinite'', ''limitless'', ''unfolding'',
    ''becoming'', ''rippling'', ''edging'', ''measuring'', ''mirroring'', ''reflected'',
    ''absorbing'', ''radiant'', ''gleaming'', ''whispering'', ''murmuring'', ''humming'',
    ''ringing'', ''singing'', ''resounding'', ''echoing'', ''calling'', ''inviting'',
    ''beckoning'', ''embracing'', ''holding'', ''enfolding'', ''surrounding'', ''cradling'',
    ''nurturing'', ''enclosing'', ''enveloping'', ''nesting'', ''harboring'', ''layering'',
    ''masking'', ''shading'', ''softening'', ''cooling'', ''warming'', ''freshening'',
    ''stilling'', ''clearing'', ''brightening'', ''opening'', ''parting'', ''receding'',
    ''unfolding'', ''arching'', ''curving'', ''rolling'', ''lapping'', ''lapping'', ''edging'',
    ''skimming'', ''gliding'', ''swaying'', ''shifting'', ''slipping'', ''flowing'',
    ''curling'', ''twisting'', ''sliding'', ''sloping'']"

definition ADJECTIVES_extend4 :: "string list" where
  "ADJECTIVES_extend4 = [
    ''rootless'', ''tangled'', ''knotted'', ''fibrous'', ''woody'', ''barky'', ''lichened'',
    ''weatherbeaten'', ''fissured'', ''cracked'', ''splintered'', ''splitting'', ''shimmered'',
    ''matte'', ''muted'', ''dimmed'', ''smoothed'', ''polished'', ''tarnished'', ''blurred'',
    ''softened'', ''washed'', ''waterworn'', ''windworn'', ''sunworn'', ''faded'', ''bleached'',
    ''paled'', ''brushed'', ''dappled'', ''mottled'', ''shadowed'', ''deepset'', ''set'',
    ''imbued'', ''infused'', ''drenched'', ''soaked'', ''moistened'', ''parched'', ''crisp'',
    ''brittle'', ''papery'', ''grainy'', ''sandy'', ''gritty'', ''chalky'', ''clayey'',
    ''pebbled'', ''stubbled'', ''graveled'', ''silted'', ''tilled'', ''furrowed'', ''plowed'',
    ''seeded'', ''sprouted'', ''leafed'', ''flowered'', ''fruited'', ''barebranched'',
    ''barelimbed'', ''budding'', ''bloomed'', ''fallen'', ''scattered'', ''strewn'',
    ''littered'', ''layered'', ''blanketed'', ''mantled'', ''veiled'', ''hooded'', ''capped'',
    ''crowned'', ''canopied'', ''vaulted'', ''pillared'', ''terraced'', ''tiered'', ''winding'',
    ''meandering'', ''branching'', ''forking'', ''splitting'', ''braided'', ''laced'',
    ''threaded'', ''filigreed'', ''etched'', ''grooved'', ''furrowed'', ''pitted'', ''scored'',
    ''scratched'', ''marred'', ''scarred'', ''traced'', ''lined'', ''wrinkled'']"

definition ADJECTIVES_extend5 :: "string list" where
  "ADJECTIVES_extend5 = [
    ''tumbled'', ''layering'', ''sheened'', ''singular'', ''ancient'', ''timely'', ''patient'',
    ''seasoning'', ''yielding'', ''pressing'', ''shimmering'', ''wavering'', ''burgeoning'',
    ''cresting'', ''soaring'', ''plunging'', ''suspended'', ''hovering'', ''wandering'',
    ''migrating'', ''seasonal'', ''evanescent'', ''delicate'', ''subdued'', ''drawn'', ''pale'',
    ''vivid'', ''fleeting'', ''vanishing'', ''gleamed'', ''flourished'', ''hidden'',
    ''revealed'', ''masked'', ''blended'', ''fused'', ''joined'', ''seamed'', ''woven'',
    ''braided'', ''rolling'', ''collapsing'', ''rising'', ''settled'', ''layered'', ''pooled'',
    ''spread'', ''arching'', ''trembling'', ''quivering'', ''drifting'', ''glowing'',
    ''yielded'', ''held'', ''carried'', ''borne'', ''drawn'', ''touched'', ''kissed'',
    ''brushed'', ''drenched'', ''dappled'', ''painted'', ''cast'', ''lifted'', ''turned'',
    ''folded'', ''shaded'', ''softened'', ''veiled'', ''borne'', ''whispered'', ''sounded'',
    ''carried'', ''suspended'', ''floating'', ''eddying'', ''circling'', ''ringing'',
    ''pealing'', ''glinting'', ''gleaming'', ''flashing'', ''glistening'', ''tinted'',
    ''smudged'', ''layered'', ''frosted'', ''iced'', ''melted'', ''flowed'', ''poured'',
    ''streamed'', ''widened'', ''narrowed'', ''cleansed'', ''smoothed'', ''sanded'',
    ''grained'', ''carved'']"

definition NOUNS_literal :: "string list" where
  "NOUNS_literal = [
    ''air'', ''arc'', ''bank'', ''beam'', ''bell'', ''bough'', ''breeze'', ''brook'', ''bud'',
    ''burl'', ''cairn'', ''calm'', ''canopy'', ''cave'', ''chime'', ''cliff'', ''cloud'',
    ''coil'', ''crag'', ''crest'', ''curve'', ''current'', ''dawn'', ''day'', ''dew'',
    ''drift'', ''drop'', ''dusk'', ''dust'', ''earth'', ''echo'', ''field'', ''fire'',
    ''flake'', ''flow'', ''fog'', ''fold'', ''foot'', ''form'', ''frost'', ''glade'', ''gleam'',
    ''grain'', ''grove'', ''gust'', ''haze'', ''hill'', ''hollow'', ''hue'', ''isle'', ''knot'',
    ''lake'', ''leaf'', ''light'', ''line'', ''moss'', ''mist'', ''moon'', ''mote'',
    ''mountain'', ''mud'', ''night'', ''noise'', ''path'', ''peak'', ''pebble'', ''petal'',
    ''plain'', ''pool'', ''pulse'', ''rain'', ''reed'', ''rest'', ''ridge'', ''rift'', ''ring'',
    ''rise'', ''rock'', ''root'', ''scale'', ''seed'', ''shade'', ''shadow'', ''shape'',
    ''shell'', ''shine'', ''shoot'', ''shore'', ''sky'', ''slip'', ''smoke'', ''snow'',
    ''soil'', ''song'', ''spark'', ''spine'', ''spring'', ''star'', ''stem'', ''step'',
    ''stone'', ''stream'', ''stripe'', ''sun'', ''tide'', ''time'', ''tone'', ''track'',
    ''trail'', ''tree'', ''trunk'', ''valley'', ''vein'', ''view'', ''vine'', ''voice'',
    ''wake'', ''wave'', ''way'', ''whirl'', ''whisper'', ''wind'', ''wing'', ''wood'', ''word'',
    ''wreath'', ''zenith'']"

definition NOUNS_extend1 :: "string list" where
  "NOUNS_extend1 = [
    ''ash'', ''bark'', ''beam'', ''birch'', ''blossom'', ''bloom'', ''bolt'', ''branch'',
    ''brim'', ''bur'', ''call'', ''cane'', ''cedar'', ''clay'', ''clearing'', ''climb'',
    ''cone'', ''cover'', ''crust'', ''dell'', ''dome'', ''echo'', ''ember'', ''fan'', ''fern'',
    ''fiber'', ''firefly'', ''flare'', ''flow'', ''foam'', ''fold'', ''fume'', ''furrow'',
    ''glimmer'', ''groove'', ''gust'', ''hollow'', ''horizon'', ''hum'', ''hush'', ''ivy'',
    ''lark'', ''layer'', ''limb'', ''lily'', ''loam'', ''loop'', ''mire'', ''murmur'',
    ''mycelium'', ''nest'', ''net'', ''niche'', ''nook'', ''oak'', ''omen'', ''overhang'',
    ''palm'', ''patch'', ''peak'', ''perch'', ''pine'', ''pitch'', ''plane'', ''pond'',
    ''print'', ''pulse'', ''quartz'', ''quiet'', ''reach'', ''reed'', ''rift'', ''rill'',
    ''ring'', ''rip'', ''rise'', ''rock'', ''root'', ''rush'', ''sap'', ''scatter'', ''scuff'',
    ''scrub'', ''shade'', ''shaft'', ''sheen'', ''shoot'', ''shrub'', ''silk'', ''silt'',
    ''slope'', ''smudge'', ''solstice'', ''spark'', ''speck'', ''spore'', ''spray'', ''sprig'',
    ''spur'', ''stack'', ''stone'', ''strand'', ''stream'', ''stump'', ''swirl'', ''thatch'',
    ''thicket'', ''thorn'', ''thread'', ''thrill'', ''thrush'', ''thrum'', ''thud'', ''thump'',
    ''tilt'', ''tint'', ''tongue'', ''track'', ''trickle'', ''twig'', ''vault'', ''veil'',
    ''verge'', ''vine'', ''vista'', ''wade'', ''warp'', ''wash'', ''way'', ''whirl'',
    ''willow'', ''wink'', ''wisp'', ''wither'', ''wreath'', ''yew'']"

definition NOUNS_extend2 :: "string list" where
  "NOUNS_extend2 = [
    ''ant'', ''ape'', ''bee'', ''beetle'', ''beet'', ''berry'', ''bison'', ''boar'', ''branch'',
    ''briar'', ''bull'', ''burrow'', ''carp'', ''cat'', ''cedar'', ''clover'', ''cockle'',
    ''conch'', ''crane'', ''creek'', ''cress'', ''crow'', ''deer'', ''dog'', ''dove'', ''eel'',
    ''egret'', ''elm'', ''falcon'', ''fern'', ''finch'', ''fish'', ''flint'', ''fowl'', ''fox'',
    ''frog'', ''furl'', ''goat'', ''goose'', ''hare'', ''hawk'', ''heron'', ''ibis'', ''jay'',
    ''koi'', ''leaflet'', ''lichen'', ''lotus'', ''magnet'', ''moth'', ''mulch'', ''mussel'',
    ''nettle'', ''newt'', ''nut'', ''oak'', ''ox'', ''owl'', ''peach'', ''pearl'', ''peril'',
    ''pine'', ''plum'', ''pond'', ''poppy'', ''quail'', ''quartz'', ''quill'', ''raven'',
    ''reed'', ''reptile'', ''robin'', ''rootlet'', ''rush'', ''rye'', ''salmon'', ''scale'',
    ''scar'', ''seal'', ''seedling'', ''shell'', ''shrub'', ''sleet'', ''snail'', ''snake'',
    ''sparrow'', ''spine'', ''squid'', ''stonecrop'', ''stork'', ''streamlet'', ''swan'',
    ''swift'', ''thorn'', ''thrush'', ''thunder'', ''tidepool'', ''toad'', ''topaz'', ''trail'',
    ''trickle'', ''trunk'', ''tusk'', ''vineyard'', ''vulture'', ''walnut'', ''wavelet'',
    ''weasel'', ''weed'', ''weft'', ''whale'', ''wheat'', ''wren'', ''zephyr'', ''amber'',
    ''arc'', ''ash'', ''balm'', ''basin'', ''beam'', ''bristle'', ''bur'', ''cairn'',
    ''cavern'', ''clod'', ''coil'', ''curl'', ''dune'', ''eddy'', ''flare'', ''fold'',
    ''fountain'', ''grove'', ''hollow'', ''jet'', ''lode'', ''mantle'', ''marsh'', ''niche'',
    ''pinnacle'', ''quartz'', ''rapids'', ''reef'', ''rootlet'', ''runoff'', ''rushes'',
    ''sapling'', ''shoal'', ''slope'', ''spume'', ''surf'']"

definition NOUNS_extend3 :: "string list" where
  "NOUNS_extend3 = [
    ''alder'', ''anemone'', ''ashlar'', ''asp'', ''atoll'', ''aura'', ''avalanche'', ''bamboo'',
    ''bank'', ''banyan'', ''basalt'', ''bay'', ''beacon'', ''beam'', ''birch'', ''bloom'',
    ''bluff'', ''bog'', ''boulder'', ''breeze'', ''briar'', ''brine'', ''brooklet'', ''cactus'',
    ''cascade'', ''cedar'', ''chasm'', ''cliffside'', ''clover'', ''cobble'', ''coral'',
    ''cotton'', ''crag'', ''cranny'', ''crevice'', ''crook'', ''crystal'', ''currant'',
    ''dahlia'', ''dam'', ''delta'', ''depth'', ''dove'', ''driftwood'', ''eddy'', ''elm'',
    ''elmwood'', ''fennel'', ''fernwood'', ''fjord'', ''flint'', ''fogbank'', ''fungus'',
    ''garden'', ''glen'', ''granite'', ''grove'', ''gull'', ''gypsum'', ''hazel'', ''heather'',
    ''hemlock'', ''herb'', ''holloway'', ''horizon'', ''ice'', ''iris'', ''jasmine'',
    ''juniper'', ''kale'', ''kettle'', ''lagoon'', ''lichen'', ''limestone'', ''lotus'',
    ''magnolia'', ''mallow'', ''marsh'', ''mire'', ''mistletoe'', ''moraine'', ''mosswood'',
    ''myrtle'', ''nebula'', ''orchid'', ''osprey'', ''palm'', ''pansy'', ''papyrus'',
    ''pasture'', ''peak'', ''peony'', ''pinewood'', ''pinnacle'', ''poplar'', ''prairie'',
    ''puff'', ''reedbed'', ''relic'', ''ridge'', ''rill'', ''riprap'', ''river'', ''rosette'',
    ''rushwood'', ''sage'', ''sedge'', ''shard'', ''sheaf'', ''sleet'', ''slough'', ''snag'',
    ''snowbank'', ''solstice'', ''spindle'', ''spume'', ''steeple'', ''steppe'', ''stubble'',
    ''sundew'', ''swale'', ''sycamore'', ''tam'', ''tarn'', ''thistle'', ''torrent'',
    ''trickle'', ''tundra'', ''understory'', ''upland'', ''valley'', ''vernal'', ''vetch'',
    ''vista'', ''waterfall'', ''wattle'', ''wave'', ''willowherb'', ''woodland'', ''zinnia'']"
definition ADJECTIVES_unsorted :: "string list" where
  "ADJECTIVES_unsorted = ADJECTIVES_literal @ ADJECTIVES_extend1 @ ADJECTIVES_extend2
     @ ADJECTIVES_extend3 @ ADJECTIVES_extend4 @ ADJECTIVES_extend5"

definition NOUNS_unsorted :: "string list" where
  "NOUNS_unsorted = NOUNS_literal @ NOUNS_extend1 @ NOUNS_extend2 @ NOUNS_extend3"

text \<open>
  \<^verbatim>\<open>ADJECTIVES.sort(key=lambda x: len(x))\<close> and the same for the nouns: Python's sort
  is stable, and so is \<^const>\<open>sort_key\<close> (\<open>sort_key_stable\<close>).
\<close>

definition ADJECTIVES :: "string list" where
  "ADJECTIVES = sort_key length ADJECTIVES_unsorted"

definition NOUNS :: "string list" where
  "NOUNS = sort_key length NOUNS_unsorted"

text \<open>
  \<^verbatim>\<open>{ l: sum(1 for a in ADJECTIVES if len(a) <= l) for l in (3, 4, 5, 6, 7, 8, 9) }\<close>:
  a dictionary with the seven keys 3 to 9, read after the sort.
\<close>

definition LENGTHS :: "string list \<Rightarrow> int \<rightharpoonup> nat" where
  "LENGTHS ws l = (if l \<in> {3, 4, 5, 6, 7, 8, 9}
     then Some (length (filter (\<lambda>a. int (length a) \<le> l) ws)) else None)"

definition ADJECTIVES_LENGTHS :: "int \<rightharpoonup> nat" where
  "ADJECTIVES_LENGTHS = LENGTHS ADJECTIVES"

definition NOUNS_LENGTHS :: "int \<rightharpoonup> nat" where
  "NOUNS_LENGTHS = LENGTHS NOUNS"


section \<open>Python values\<close>

type_synonym byte = "8 word"

text \<open>A Python \<^verbatim>\<open>str\<close> is a sequence of Unicode code points.\<close>

type_synonym pystr = "nat list"

text \<open>
  The object to name: an integer, a text or a byte string. \<^verbatim>\<open>None\<close> is the
  \<open>None\<close> of \<open>pyobj option\<close>.
\<close>

datatype pyobj = PyInt int | PyText pystr | PyBytes "byte list"

datatype error =
  ValueError | TypeError | KeyError | IndexError | ZeroDivisionError
  | OverflowError | UnicodeEncodeError

text \<open>The code points of an ASCII literal.\<close>

definition text_of :: "string \<Rightarrow> pystr" where
  "text_of s = map of_char s"

subsection \<open>\<^verbatim>\<open>str\<close> of an integer\<close>

fun digits10 :: "nat \<Rightarrow> pystr" where
  "digits10 n = (if n < 10 then [48 + n] else digits10 (n div 10) @ [48 + n mod 10])"

declare digits10.simps [simp del]

definition str_int :: "int \<Rightarrow> pystr" where
  "str_int i = (if i < 0 then 45 # digits10 (nat (- i)) else digits10 (nat i))"

subsection \<open>\<^verbatim>\<open>encode('utf-8')\<close>\<close>

text \<open>
  One code point gives one to four bytes; a surrogate cannot be encoded
  (\<^verbatim>\<open>UnicodeEncodeError\<close>). Python's \<^verbatim>\<open>str\<close> holds no code point above
  \<^verbatim>\<open>0x10FFFF\<close>; the encoder refuses one as well.
\<close>

definition utf8_code_point :: "nat \<Rightarrow> byte list option" where
  "utf8_code_point c =
     (if c < 0x80 then Some [of_nat c]
      else if c < 0x800 then Some [of_nat (0xC0 + c div 64), of_nat (0x80 + c mod 64)]
      else if 0xD800 \<le> c \<and> c < 0xE000 then None
      else if c < 0x10000 then
        Some [of_nat (0xE0 + c div 4096), of_nat (0x80 + c div 64 mod 64),
              of_nat (0x80 + c mod 64)]
      else if c < 0x110000 then
        Some [of_nat (0xF0 + c div 262144), of_nat (0x80 + c div 4096 mod 64),
              of_nat (0x80 + c div 64 mod 64), of_nat (0x80 + c mod 64)]
      else None)"

fun encode_utf8 :: "pystr \<Rightarrow> error + byte list" where
  "encode_utf8 [] = Inr []"
| "encode_utf8 (c # cs) =
     (case utf8_code_point c of
        None \<Rightarrow> Inl UnicodeEncodeError
      | Some bs \<Rightarrow> (case encode_utf8 cs of Inl e \<Rightarrow> Inl e | Inr rest \<Rightarrow> Inr (bs @ rest)))"

subsection \<open>\<^verbatim>\<open>hashlib\<close>\<close>

text \<open>
  \<^verbatim>\<open>hashlib\<close> is the Python standard library, not code of this module: it is a
  parameter of the model. \<^verbatim>\<open>hashlib.new(name)\<close> raises \<^verbatim>\<open>ValueError\<close> for a
  name it does not know (\<open>None\<close> here). A known name is either an algorithm with a
  digest of fixed size, or one with a digest of variable size (the \<^verbatim>\<open>shake\<close>
  family), whose \<^verbatim>\<open>hexdigest\<close> needs a length argument that the module does not pass.
\<close>

datatype hash_algorithm = Digest "byte list \<Rightarrow> byte list" | Variable_Digest

type_synonym hashlib = "string \<Rightarrow> hash_algorithm option"

text \<open>\<^verbatim>\<open>hexdigest()\<close>: two lowercase hexadecimal digits per byte.\<close>

definition hex_digit :: "nat \<Rightarrow> char" where
  "hex_digit d = (if d < 10 then char_of (48 + d) else char_of (87 + d))"

definition hexdigest :: "byte list \<Rightarrow> string" where
  "hexdigest bs = concat (map (\<lambda>b. [hex_digit (unat b div 16), hex_digit (unat b mod 16)]) bs)"

text \<open>
  \<^verbatim>\<open>int(s, 16)\<close> on a string of hexadecimal digits (all that \<^verbatim>\<open>hexdigest\<close>
  returns); the empty string and any other character raise \<^verbatim>\<open>ValueError\<close>.
\<close>

definition hex_value :: "char \<Rightarrow> nat option" where
  "hex_value c = (let n = of_char c in
     if 48 \<le> n \<and> n \<le> 57 then Some (n - 48)
     else if 97 \<le> n \<and> n \<le> 102 then Some (n - 87)
     else if 65 \<le> n \<and> n \<le> 70 then Some (n - 55)
     else None)"

fun int_base16_from :: "nat \<Rightarrow> string \<Rightarrow> error + nat" where
  "int_base16_from acc [] = Inr acc"
| "int_base16_from acc (c # cs) =
     (case hex_value c of None \<Rightarrow> Inl ValueError
      | Some d \<Rightarrow> int_base16_from (acc * 16 + d) cs)"

definition int_base16 :: "string \<Rightarrow> error + nat" where
  "int_base16 s = (if s = [] then Inl ValueError else int_base16_from 0 s)"

subsection \<open>\<^verbatim>\<open>int(index / len(p))\<close>\<close>

text \<open>
  In Python 3 the operator \<^verbatim>\<open>/\<close> on two integers is true division: the result is
  the binary64 float nearest to the exact quotient (ties to the even significand),
  \<^verbatim>\<open>OverflowError\<close> when that exceeds the largest float. \<^verbatim>\<open>int\<close> then truncates.
  The operands here are never negative. All of it is arithmetic on integers:
  with \<open>e = \<lfloor>log\<^sub>2 (a / b)\<rfloor>\<close> the float is \<open>m \<times> 2\<^sup>s\<close> for \<open>s = max (e - 52) (-1074)\<close>
  and \<open>m\<close> the integer nearest to \<open>a / (b \<times> 2\<^sup>s)\<close>.
  (Under Python 2 the same operator is floor division on integers.)
\<close>

fun bit_length :: "nat \<Rightarrow> nat" where
  "bit_length n = (if n = 0 then 0 else Suc (bit_length (n div 2)))"

declare bit_length.simps [simp del]

definition floor_log2_quotient :: "nat \<Rightarrow> nat \<Rightarrow> int" where
  "floor_log2_quotient a b =
     (let d = int (bit_length a) - int (bit_length b)
      in if b * 2 ^ nat d \<le> a * 2 ^ nat (- d) then d else d - 1)"

definition round_half_even :: "nat \<Rightarrow> nat \<Rightarrow> nat" where
  "round_half_even n d =
     (let q = n div d; r = n mod d
      in if 2 * r < d then q else if d < 2 * r then q + 1 else if even q then q else q + 1)"

definition int_of_true_division :: "nat \<Rightarrow> nat \<Rightarrow> error + nat" where
  "int_of_true_division a b =
     (if b = 0 then Inl ZeroDivisionError
      else if a = 0 then Inr 0
      else
        let s = max (floor_log2_quotient a b - 52) (- 1074);
            m = round_half_even (a * 2 ^ nat (- s)) (b * 2 ^ nat s)
        in if 2 ^ 1024 \<le> m * 2 ^ nat s then Inl OverflowError
           else Inr (m * 2 ^ nat s div 2 ^ nat (- s)))"


section \<open>\<^verbatim>\<open>codenamize_particles\<close>\<close>

datatype particles_result = Space_Size nat | Particles "string list"

text \<open>The two \<^verbatim>\<open>if\<close> statements that open the function.\<close>

definition normalize_max_item_chars :: "int \<Rightarrow> int" where
  "normalize_max_item_chars max_item_chars =
     (let m = (if max_item_chars > 0 \<and> max_item_chars < 3 then 3 else max_item_chars)
      in if m > 9 then 0 else m)"

text \<open>
  The list of word lists; \<open>max_item_chars\<close> is already normalised.
  \<^verbatim>\<open>range(0, adjectives)\<close> is empty for \<open>adjectives \<le> 0\<close>, as \<open>nat adjectives\<close> is 0.
\<close>

definition particle_lists :: "int \<Rightarrow> int \<Rightarrow> error + string list list" where
  "particle_lists adjectives max_item_chars =
     (if max_item_chars > 0 then
        (case NOUNS_LENGTHS max_item_chars of
           None \<Rightarrow> Inl KeyError
         | Some n \<Rightarrow>
            (case ADJECTIVES_LENGTHS max_item_chars of
               None \<Rightarrow> Inl KeyError
             | Some a \<Rightarrow> Inr (take n NOUNS # replicate (nat adjectives) (take a ADJECTIVES))))
      else Inr (NOUNS # replicate (nat adjectives) ADJECTIVES))"

text \<open>\<^verbatim>\<open>functools.reduce(lambda a, b: a * b, [len(p) for p in particles], 1)\<close>\<close>

definition total_words_of :: "string list list \<Rightarrow> nat" where
  "total_words_of particles = foldl (\<lambda>a b. a * b) 1 (map length particles)"

text \<open>The conversion of the object to bytes.\<close>

definition obj_bytes :: "pyobj \<Rightarrow> error + byte list" where
  "obj_bytes obj = (case obj of
       PyInt i \<Rightarrow> encode_utf8 (str_int i)
     | PyText t \<Rightarrow> encode_utf8 t
     | PyBytes bs \<Rightarrow> Inr bs)"

definition multiplier :: nat where
  "multiplier = 36413321723440003717"

definition obj_hash_of :: "hashlib \<Rightarrow> string \<Rightarrow> byte list \<Rightarrow> error + nat" where
  "obj_hash_of hashlib_new hash_algo bs =
     (case hashlib_new hash_algo of
        None \<Rightarrow> Inl ValueError
      | Some Variable_Digest \<Rightarrow> Inl TypeError
      | Some (Digest h) \<Rightarrow>
          (case int_base16 (hexdigest (h bs)) of
             Inl e \<Rightarrow> Inl e
           | Inr n \<Rightarrow> Inr (n * multiplier)))"

text \<open>The loop over the word lists: one word of each, and the index divided.\<close>

fun calculate_words :: "string list list \<Rightarrow> nat \<Rightarrow> string list \<Rightarrow> error + string list" where
  "calculate_words [] index codename_particles = Inr codename_particles"
| "calculate_words (p # ps) index codename_particles =
     (if length p = 0 then Inl ZeroDivisionError
      else case int_of_true_division index (length p) of
             Inl e \<Rightarrow> Inl e
           | Inr index' \<Rightarrow>
               calculate_words ps index' (codename_particles @ [p ! (index mod length p)]))"

definition codenamize_particles ::
  "hashlib \<Rightarrow> pyobj option \<Rightarrow> int \<Rightarrow> int \<Rightarrow> string \<Rightarrow> error + particles_result" where
  "codenamize_particles hashlib_new obj adjectives max_item_chars hash_algo =
     (case particle_lists adjectives (normalize_max_item_chars max_item_chars) of
        Inl e \<Rightarrow> Inl e
      | Inr particles \<Rightarrow>
          let total_words = total_words_of particles in
          (case obj of
             None \<Rightarrow> Inr (Space_Size total_words)
           | Some ob \<Rightarrow>
              (case obj_bytes ob of
                 Inl e \<Rightarrow> Inl e
               | Inr bs \<Rightarrow>
                  (case obj_hash_of hashlib_new hash_algo bs of
                     Inl e \<Rightarrow> Inl e
                   | Inr obj_hash \<Rightarrow>
                      if total_words = 0 then Inl ZeroDivisionError
                      else (case calculate_words particles (obj_hash mod total_words) [] of
                              Inl e \<Rightarrow> Inl e
                            | Inr ws \<Rightarrow> Inr (Particles (rev ws)))))))"

definition codenamize_space :: "hashlib \<Rightarrow> int \<Rightarrow> int \<Rightarrow> string \<Rightarrow> error + particles_result" where
  "codenamize_space hashlib_new adjectives max_item_chars hash_algo =
     codenamize_particles hashlib_new None adjectives max_item_chars hash_algo"


section \<open>\<^verbatim>\<open>codenamize\<close>\<close>

text \<open>
  \<^verbatim>\<open>p[0].upper() + p[1:]\<close>; the words hold the letters a to z only, where
  \<^verbatim>\<open>upper\<close> is the ASCII one. \<^verbatim>\<open>p[0]\<close> of an empty word raises.
\<close>

definition upper :: "char \<Rightarrow> char" where
  "upper c = (let n = (of_char c :: nat) in if 97 \<le> n \<and> n \<le> 122 then char_of (n - 32) else c)"

fun capitalize_all :: "string list \<Rightarrow> error + string list" where
  "capitalize_all [] = Inr []"
| "capitalize_all (p # ps) =
     (case p of
        [] \<Rightarrow> Inl IndexError
      | c # cs \<Rightarrow> (case capitalize_all ps of Inl e \<Rightarrow> Inl e | Inr qs \<Rightarrow> Inr ((upper c # cs) # qs)))"

fun str_join :: "string \<Rightarrow> string list \<Rightarrow> string" where
  "str_join sep [] = []"
| "str_join sep [w] = w"
| "str_join sep (w # ws) = w @ sep @ str_join sep ws"

text \<open>
  With \<^verbatim>\<open>obj = None\<close> the particles are an integer, which can be neither iterated
  nor joined: \<^verbatim>\<open>TypeError\<close> on both paths.
\<close>

definition codenamize ::
  "hashlib \<Rightarrow> pyobj option \<Rightarrow> int \<Rightarrow> int \<Rightarrow> string option \<Rightarrow> bool \<Rightarrow> string \<Rightarrow> error + string" where
  "codenamize hashlib_new obj adjectives max_item_chars join capitalize hash_algo =
     (case codenamize_particles hashlib_new obj adjectives max_item_chars hash_algo of
        Inl e \<Rightarrow> Inl e
      | Inr (Space_Size n) \<Rightarrow> Inl TypeError
      | Inr (Particles codename_particles) \<Rightarrow>
          let sep = (case join of None \<Rightarrow> [] | Some j \<Rightarrow> j) in
          if capitalize then
            (case capitalize_all codename_particles of
               Inl e \<Rightarrow> Inl e
             | Inr ps \<Rightarrow> Inr (str_join sep ps))
          else Inr (str_join sep codename_particles))"


section \<open>The specification's notions\<close>

text \<open>
  The definitions of this section follow the words of the specification, not the code;
  the theorems compare the two.
\<close>

text \<open>
  The ceiling after normalisation: a ceiling strictly between 0 and 3 is raised to 3, one
  above 9 means unlimited (0).
\<close>

definition normalized_ceiling :: "int \<Rightarrow> int" where
  "normalized_ceiling c = (if 0 < c \<and> c < 3 then 3 else if 9 < c then 0 else c)"

text \<open>The length index: the number of words of a list with length at most \<open>c\<close>.\<close>

definition LengthIndex :: "string list \<Rightarrow> int \<Rightarrow> nat" where
  "LengthIndex ws c = length (filter (\<lambda>w. int (length w) \<le> c) ws)"

text \<open>
  The effective list under a ceiling: the whole list when the normalised ceiling is 0, the
  words that are short enough otherwise, in the order of the list. The specification gives
  a negative ceiling no meaning; it is read here as unlimited, like 0.
\<close>

definition effective_words :: "string list \<Rightarrow> int \<Rightarrow> string list" where
  "effective_words ws c =
     (let n = normalized_ceiling c
      in if 0 < n then filter (\<lambda>w. int (length w) \<le> n) ws else ws)"

definition effectiveNounSize :: "int \<Rightarrow> nat" where
  "effectiveNounSize c =
     (let n = normalized_ceiling c in if 0 < n then LengthIndex NOUNS n else length NOUNS)"

definition effectiveAdjectiveSize :: "int \<Rightarrow> nat" where
  "effectiveAdjectiveSize c =
     (let n = normalized_ceiling c
      in if 0 < n then LengthIndex ADJECTIVES n else length ADJECTIVES)"

text \<open>The digest as one big-endian unsigned integer.\<close>

definition big_endian :: "byte list \<Rightarrow> nat" where
  "big_endian bs = foldl (\<lambda>n b. n * 256 + unat b) 0 bs"

text \<open>
  Mixed-radix decoding of an index over a sequence of lists: the word at
  \<open>index mod len(L)\<close>, then \<open>index = floor(index / len(L))\<close>.
\<close>

fun mixed_radix :: "string list list \<Rightarrow> nat \<Rightarrow> string list" where
  "mixed_radix [] index = []"
| "mixed_radix (L # Ls) index = L ! (index mod length L) # mixed_radix Ls (index div length L)"

text \<open>
  The particles the specification describes for an object hash and \<open>n\<close> adjectives: the
  index is the hash modulo the product of the lists' lengths, decoded over the noun list and
  then each adjective list, and the selections reversed.
\<close>

definition decode_particles :: "nat \<Rightarrow> nat \<Rightarrow> int \<Rightarrow> string list" where
  "decode_particles objHash n charCeiling =
     (let lists = effective_words NOUNS charCeiling
                    # replicate n (effective_words ADJECTIVES charCeiling);
          idx = objHash mod prod_list (map length lists)
      in rev (mixed_radix lists idx))"

text \<open>The object hash is the digest, as an integer, times the fixed multiplier.\<close>

definition SelectParticles :: "nat \<Rightarrow> int \<Rightarrow> int \<Rightarrow> string list" where
  "SelectParticles digestInt adjectiveCount charCeiling =
     decode_particles (digestInt * 36413321723440003717) (nat adjectiveCount) charCeiling"

text \<open>The value of a string of decimal digits, with a leading minus sign or without.\<close>

definition digits_value :: "pystr \<Rightarrow> nat" where
  "digits_value ds = foldl (\<lambda>n d. n * 10 + (d - 48)) 0 ds"

definition decimal_value :: "pystr \<Rightarrow> int" where
  "decimal_value s = (case s of [] \<Rightarrow> 0
     | c # cs \<Rightarrow> if c = 45 then - int (digits_value cs) else int (digits_value s))"


section \<open>A hash library for the examples\<close>

text \<open>
  The library whose every algorithm returns the given digest for every input: it
  instantiates the parameter where an example needs one digest.
\<close>

definition constant_hashlib :: "byte list \<Rightarrow> hashlib" where
  "constant_hashlib digest = (\<lambda>name. Some (Digest (\<lambda>bs. digest)))"

text \<open>
  Three MD5 digests (RFC 1321), as \<^verbatim>\<open>hashlib.md5(b).digest()\<close> returns them: of the
  strings \<^verbatim>\<open>1\<close>, \<^verbatim>\<open>100001\<close> and \<^verbatim>\<open>144\<close>.
\<close>

definition md5_digest_1 :: "byte list" where
  "md5_digest_1 = [0xc4, 0xca, 0x42, 0x38, 0xa0, 0xb9, 0x23, 0x82,
                   0x0d, 0xcc, 0x50, 0x9a, 0x6f, 0x75, 0x84, 0x9b]"

definition md5_digest_100001 :: "byte list" where
  "md5_digest_100001 = [0xe2, 0xa6, 0xa1, 0xac, 0xe3, 0x52, 0x66, 0x80,
                        0x00, 0xae, 0xd1, 0x91, 0xa8, 0x17, 0xd1, 0x43]"

definition md5_digest_144 :: "byte list" where
  "md5_digest_144 = [0x0a, 0x09, 0xc8, 0x84, 0x4b, 0xa8, 0xf0, 0x93,
                     0x6c, 0x20, 0xbd, 0x79, 0x11, 0x30, 0xd6, 0xb6]"


section \<open>True division below \<open>2\<^sup>5\<^sup>3\<close>\<close>

text \<open>
  Where the dividend is below \<open>2\<^sup>5\<^sup>3\<close> the float nearest to the quotient truncates to
  the floor of the quotient: \<^verbatim>\<open>int(a / b)\<close> is \<^verbatim>\<open>a // b\<close> there.
\<close>

lemma bit_length_upper: "n < 2 ^ bit_length n"
proof (induction n rule: bit_length.induct)
  case (1 n)
  show ?case
  proof (cases "n = 0")
    case True
    then show ?thesis by (simp add: bit_length.simps)
  next
    case False
    with 1 have "n div 2 < 2 ^ bit_length (n div 2)" by simp
    then have "n < 2 * 2 ^ bit_length (n div 2)" by linarith
    with False show ?thesis by (simp add: bit_length.simps [of n])
  qed
qed

lemma bit_length_lower: "0 < n \<Longrightarrow> 2 ^ bit_length n \<le> 2 * n"
proof (induction n rule: bit_length.induct)
  case (1 n)
  show ?case
  proof (cases "n div 2 = 0")
    case True
    with 1(2) have "n = 1" by linarith
    then show ?thesis by (simp add: bit_length.simps)
  next
    case False
    with 1 have "2 ^ bit_length (n div 2) \<le> 2 * (n div 2)" by simp
    then have "2 * 2 ^ bit_length (n div 2) \<le> 2 * n" by linarith
    with 1(2) show ?thesis by (simp add: bit_length.simps [of n])
  qed
qed

lemma floor_log2_quotient_lower:
  assumes "0 < a" "0 < b"
  shows "b * 2 ^ nat (floor_log2_quotient a b) \<le> a * 2 ^ nat (- floor_log2_quotient a b)"
proof -
  define la where "la = bit_length a"
  define lb where "lb = bit_length b"
  define d where "d = int la - int lb"
  have a_lo: "2 ^ la \<le> 2 * a" unfolding la_def using assms by (simp add: bit_length_lower)
  have b_hi: "b < 2 ^ lb" unfolding lb_def by (rule bit_length_upper)
  have la_pos: "0 < la" using a_lo assms
    by (metis One_nat_def bit_length_upper la_def less_one not_gr_zero power_0)
  show ?thesis
  proof (cases "b * 2 ^ nat d \<le> a * 2 ^ nat (- d)")
    case True
    then show ?thesis
      by (simp add: floor_log2_quotient_def Let_def d_def la_def lb_def)
  next
    case False
    then have e: "floor_log2_quotient a b = d - 1"
      by (simp add: floor_log2_quotient_def Let_def d_def la_def lb_def)
    show ?thesis
    proof (cases "1 \<le> d")
      case True
      then have la_eq: "la = lb + nat (d - 1) + 1" unfolding d_def by linarith
      have "2 * (b * 2 ^ nat (d - 1)) \<le> 2 * (2 ^ lb * 2 ^ nat (d - 1))"
        using b_hi by simp
      also have "\<dots> = 2 ^ la" by (simp add: la_eq power_add)
      also have "\<dots> \<le> 2 * a" by (rule a_lo)
      finally have "b * 2 ^ nat (d - 1) \<le> a" by simp
      with True show ?thesis by (simp add: e)
    next
      case False
      then have lb_eq: "lb + 1 = la + nat (1 - d)" unfolding d_def by linarith
      have "2 * b \<le> 2 * 2 ^ lb" using b_hi by simp
      also have "\<dots> = 2 ^ (lb + 1)" by simp
      also have "\<dots> = 2 ^ la * 2 ^ nat (1 - d)" by (simp only: lb_eq power_add)
      also have "\<dots> \<le> (2 * a) * 2 ^ nat (1 - d)" using a_lo by (rule mult_right_mono) simp
      finally have "b \<le> a * 2 ^ nat (1 - d)" by simp
      with False show ?thesis by (simp add: e)
    qed
  qed
qed

lemma floor_log2_quotient_upper:
  assumes "0 < a" "0 < b"
  shows "a * 2 ^ nat (- floor_log2_quotient a b) < 2 * b * 2 ^ nat (floor_log2_quotient a b)"
proof -
  define la where "la = bit_length a"
  define lb where "lb = bit_length b"
  define d where "d = int la - int lb"
  have b_lo: "2 ^ lb \<le> 2 * b" unfolding lb_def using assms by (simp add: bit_length_lower)
  have a_hi: "a < 2 ^ la" unfolding la_def by (rule bit_length_upper)
  show ?thesis
  proof (cases "b * 2 ^ nat d \<le> a * 2 ^ nat (- d)")
    case True
    then have e: "floor_log2_quotient a b = d"
      by (simp add: floor_log2_quotient_def Let_def d_def la_def lb_def)
    show ?thesis
    proof (cases "0 \<le> d")
      case True
      then have la_eq: "la = lb + nat d" unfolding d_def by linarith
      have "a < 2 ^ lb * 2 ^ nat d" using a_hi by (simp add: la_eq power_add)
      also have "\<dots> \<le> (2 * b) * 2 ^ nat d" using b_lo by (rule mult_right_mono) simp
      finally show ?thesis using True by (simp add: e)
    next
      case False
      then have lb_eq: "lb = la + nat (- d)" unfolding d_def by linarith
      have "a * 2 ^ nat (- d) < 2 ^ la * 2 ^ nat (- d)" using a_hi by simp
      also have "\<dots> = 2 ^ lb" by (simp add: lb_eq power_add)
      also have "\<dots> \<le> 2 * b" by (rule b_lo)
      finally show ?thesis using False by (simp add: e)
    qed
  next
    case False
    then have e: "floor_log2_quotient a b = d - 1"
      by (simp add: floor_log2_quotient_def Let_def d_def la_def lb_def)
    from False have lt: "a * 2 ^ nat (- d) < b * 2 ^ nat d" by simp
    show ?thesis
    proof (cases "1 \<le> d")
      case True
      then have "nat d = Suc (nat (d - 1))" by linarith
      with lt True show ?thesis by (simp add: e)
    next
      case False
      then have "nat (1 - d) = Suc (nat (- d))" by linarith
      with lt False show ?thesis by (simp add: e)
    qed
  qed
qed

lemma round_half_even_lower: "n div d \<le> round_half_even n d"
  by (simp add: round_half_even_def Let_def)

lemma round_half_even_upper:
  assumes "0 < d"
  shows "2 * d * round_half_even n d \<le> 2 * n + d"
proof -
  have n: "n = d * (n div d) + n mod d" by simp
  define q where "q = n div d"
  define r where "r = n mod d"
  have n': "n = d * q + r" unfolding q_def r_def by simp
  have r: "r < d" unfolding r_def using assms by simp
  have "round_half_even n d = q \<or> (round_half_even n d = q + 1 \<and> d \<le> 2 * r)"
    unfolding round_half_even_def Let_def q_def r_def by auto
  then show ?thesis
  proof
    assume "round_half_even n d = q"
    then show ?thesis by (simp add: n' algebra_simps)
  next
    assume "round_half_even n d = q + 1 \<and> d \<le> 2 * r"
    then show ?thesis by (simp add: n' algebra_simps)
  qed
qed


lemma int_of_true_division_exact:
  assumes b: "0 < b" and a: "a < 2 ^ 53"
  shows "int_of_true_division a b = Inr (a div b)"
proof (cases "a = 0")
  case True
  then show ?thesis using b by (simp add: int_of_true_division_def)
next
  case False
  then have a0: "0 < a" by simp
  define e where "e = floor_log2_quotient a b"
  define t where "t = nat (- max (e - 52) (- 1074))"
  define m where "m = round_half_even (a * 2 ^ t) b"
  define k where "k = a div b"
  define r where "r = a mod b"
  have P1: "b * 2 ^ nat e \<le> a * 2 ^ nat (- e)"
    unfolding e_def using a0 b by (rule floor_log2_quotient_lower)
  have P2: "a * 2 ^ nat (- e) < 2 * b * 2 ^ nat e"
    unfolding e_def using a0 b by (rule floor_log2_quotient_upper)
  have e_le: "e \<le> 52"
  proof (rule ccontr)
    assume "\<not> e \<le> 52"
    then have big: "53 \<le> nat e" and z: "nat (- e) = 0" by linarith+
    have "(2::nat) ^ 53 \<le> 2 ^ nat e" using big by (intro power_increasing) simp_all
    also have "\<dots> \<le> b * 2 ^ nat e" using b by simp
    also have "\<dots> \<le> a" using P1 z by simp
    finally show False using a by simp
  qed
  then have s0: "nat (max (e - 52) (- 1074)) = 0" by simp
  have r_less: "r < b" unfolding r_def using b by simp
  have a_eq: "a = k * b + r" unfolding k_def r_def by simp
  have scaled: "a * 2 ^ t < b * 2 ^ 53"
  proof (cases "0 \<le> e")
    case True
    then have z: "nat (- e) = 0" and sum: "Suc (nat e + t) = 53"
      unfolding t_def using e_le by linarith+
    have "a * 2 ^ t < (2 * b * 2 ^ nat e) * 2 ^ t" using P2 z by simp
    also have "\<dots> = b * 2 ^ Suc (nat e + t)" by (simp add: power_add)
    finally show ?thesis by (simp only: sum)
  next
    case False
    then have z: "nat e = 0" and t_le: "t \<le> nat (- e) + 52"
      unfolding t_def by linarith+
    have "a * 2 ^ t \<le> a * 2 ^ (nat (- e) + 52)"
      using t_le by (intro mult_left_mono power_increasing) simp_all
    also have "\<dots> = (a * 2 ^ nat (- e)) * 2 ^ 52" by (simp add: power_add)
    also have "\<dots> < (2 * b) * 2 ^ 52" using P2 z by simp
    also have "\<dots> = b * 2 ^ 53" by simp
    finally show ?thesis .
  qed
  have rhe: "2 * b * m \<le> 2 * (a * 2 ^ t) + b"
    unfolding m_def using b by (rule round_half_even_upper)
  have m_le: "m \<le> 2 ^ 53"
  proof -
    have "2 * b * m < 2 * (b * 2 ^ 53) + b" using rhe scaled by linarith
    then have "b * (2 * m) < b * (2 * 2 ^ 53 + 1)" by (simp add: algebra_simps)
    then have "2 * m < 2 * 2 ^ 53 + 1" by simp
    then show ?thesis by simp
  qed
  have lower: "2 ^ t * k \<le> m"
  proof -
    have "k * b \<le> a" unfolding k_def by simp
    then have "(k * b) * 2 ^ t \<le> a * 2 ^ t" by (rule mult_right_mono) simp
    then have "(2 ^ t * k) * b \<le> a * 2 ^ t" by (simp add: mult_ac)
    then have "2 ^ t * k \<le> (a * 2 ^ t) div b" using b by (simp add: less_eq_div_iff_mult_less_eq)
    also have "\<dots> \<le> m" unfolding m_def by (rule round_half_even_lower)
    finally show ?thesis .
  qed
  have gap: "b < (b - r) * 2 ^ Suc t"
  proof (cases "0 \<le> e")
    case True
    then have z: "nat (- e) = 0" and sum: "nat e + Suc t = 53"
      unfolding t_def using e_le by linarith+
    have "b * 2 ^ nat e \<le> a" using P1 z by simp
    also have "a < 2 ^ (nat e + Suc t)" using a by (simp only: sum)
    finally have "b * 2 ^ nat e < 2 ^ Suc t * 2 ^ nat e" by (simp add: power_add mult_ac)
    then have "b < 2 ^ Suc t" by simp
    also have "\<dots> \<le> (b - r) * 2 ^ Suc t" using r_less by simp
    finally show ?thesis .
  next
    case False
    then have z: "nat e = 0" and ne: "1 \<le> nat (- e)" and t53: "53 \<le> t"
      unfolding t_def by linarith+
    have "a * 2 ^ 1 \<le> a * 2 ^ nat (- e)"
      using ne by (intro mult_left_mono power_increasing) simp_all
    also have "\<dots> < 2 * b" using P2 z by simp
    finally have ab: "a < b" by simp
    then have r_eq: "r = a" unfolding r_def by simp
    have p54: "(2::nat) ^ 54 \<le> 2 ^ Suc t" using t53 by (intro power_increasing) simp_all
    have mono: "(b - a) * 2 ^ 54 \<le> (b - a) * 2 ^ Suc t"
      using p54 by (rule mult_left_mono) simp
    have "b < (b - a) * 2 ^ 54"
    proof (cases "b < 2 ^ 54")
      case True
      have "(2::nat) ^ 54 \<le> (b - a) * 2 ^ 54" using ab by simp
      with True show ?thesis by linarith
    next
      case False
      then have "2 * a < b" using a by simp
      then have "b < (b - a) * 2" by linarith
      also have "\<dots> \<le> (b - a) * 2 ^ 54" by (rule mult_left_mono) simp_all
      finally show ?thesis .
    qed
    with mono show ?thesis unfolding r_eq by linarith
  qed
  have upper: "m < 2 ^ t * Suc k"
  proof -
    have "(b - r) * 2 ^ Suc t + 2 * (a * 2 ^ t) = 2 * b * (2 ^ t * Suc k)"
    proof -
      have "(b - r) + a = b * Suc k" using a_eq r_less by (simp add: algebra_simps)
      then have "((b - r) + a) * 2 ^ Suc t = (b * Suc k) * 2 ^ Suc t" by simp
      then show ?thesis by (simp add: algebra_simps)
    qed
    with rhe gap have "2 * b * m < 2 * b * (2 ^ t * Suc k)" by linarith
    then show ?thesis by simp
  qed
  have quot: "m div 2 ^ t = k"
    using lower upper by (rule div_nat_eqI)
  have no_overflow: "\<not> (2::nat) ^ 1024 \<le> m"
  proof -
    have "(2::nat) ^ 53 < 2 ^ 1024" by (rule power_strict_increasing) simp_all
    with m_le show ?thesis by linarith
  qed
  show ?thesis
    using False b no_overflow quot
    by (simp add: int_of_true_division_def Let_def s0 e_def [symmetric] t_def [symmetric]
        m_def [symmetric] k_def)
qed



section \<open>Stable sorting by a key\<close>

lemma length_filter_sort_key:
  "length (filter P (sort_key f xs)) = length (filter P xs)"
proof -
  have "mset (filter P (sort_key f xs)) = mset (filter P xs)" by simp
  then show ?thesis by (metis size_mset)
qed

lemma take_filter_sorted:
  assumes "sorted (map f ys)" and "\<And>x y. P y \<Longrightarrow> f x \<le> f y \<Longrightarrow> P x"
  shows "take (length (filter P ys)) ys = filter P ys"
  using assms(1)
proof (induction ys)
  case Nil
  then show ?case by simp
next
  case (Cons y ys)
  show ?case
  proof (cases "P y")
    case True
    with Cons show ?thesis by simp
  next
    case False
    have "\<not> P z" if "z \<in> set ys" for z
    proof
      assume "P z"
      moreover have "f y \<le> f z" using Cons.prems that by auto
      ultimately have "P y" by (rule assms(2))
      with False show False by simp
    qed
    then have "filter P ys = []" by (simp add: filter_empty_conv)
    with False show ?thesis by simp
  qed
qed

lemma drop_filter_sorted:
  assumes "sorted (map f ys)" and "\<And>x y. P y \<Longrightarrow> f x \<le> f y \<Longrightarrow> P x"
  shows "drop (length (filter P ys)) ys = filter (\<lambda>x. \<not> P x) ys"
  using assms(1)
proof (induction ys)
  case Nil
  then show ?case by simp
next
  case (Cons y ys)
  show ?case
  proof (cases "P y")
    case True
    with Cons show ?thesis by simp
  next
    case False
    have "\<not> P z" if "z \<in> set ys" for z
    proof
      assume "P z"
      moreover have "f y \<le> f z" using Cons.prems that by auto
      ultimately have "P y" by (rule assms(2))
      with False show False by simp
    qed
    then have "filter P ys = []" and "filter (\<lambda>x. \<not> P x) ys = ys"
      by (simp_all add: filter_empty_conv filter_id_conv)
    with False show ?thesis by simp
  qed
qed

lemma sort_key_nth:
  fixes f :: "'a \<Rightarrow> nat"
  assumes j: "j < length (filter (\<lambda>x. f x = k) xs)"
  shows "sort_key f xs ! (length (filter (\<lambda>x. f x < k) xs) + j) = filter (\<lambda>x. f x = k) xs ! j"
proof -
  define ys where "ys = sort_key f xs"
  define zs where "zs = filter (\<lambda>x. \<not> f x < k) ys"
  have sorted_ys: "sorted (map f ys)" unfolding ys_def by simp
  have lo: "length (filter (\<lambda>x. f x < k) xs) = length (filter (\<lambda>x. f x < k) ys)"
    unfolding ys_def by (simp add: length_filter_sort_key)
  have drop_eq: "drop (length (filter (\<lambda>x. f x < k) ys)) ys = zs"
    unfolding zs_def using sorted_ys by (rule drop_filter_sorted) simp
  have sorted_zs: "sorted (map f zs)"
    unfolding zs_def using sorted_ys by (simp add: sorted_filter)
  have eq_k: "filter (\<lambda>x. f x \<le> k) zs = filter (\<lambda>x. f x = k) xs"
  proof -
    have "filter (\<lambda>x. f x \<le> k) zs = filter (\<lambda>x. f x = k) ys"
      unfolding zs_def by (auto intro: filter_cong)
    also have "\<dots> = filter (\<lambda>x. f x = k) xs"
      unfolding ys_def by (rule sort_key_stable)
    finally show ?thesis .
  qed
  have take_eq: "take (length (filter (\<lambda>x. f x \<le> k) zs)) zs = filter (\<lambda>x. f x \<le> k) zs"
    using sorted_zs by (rule take_filter_sorted) simp
  have le: "length (filter (\<lambda>x. f x < k) ys) + j \<le> length ys"
  proof -
    have "j < length zs"
      using j eq_k length_filter_le [of "\<lambda>x. f x \<le> k" zs] by simp
    then show ?thesis using drop_eq by (metis add.commute length_drop less_diff_conv less_imp_le_nat)
  qed
  have "ys ! (length (filter (\<lambda>x. f x < k) ys) + j) = zs ! j"
    using drop_eq le by (metis nth_drop order_refl le_add1 add_leD1)
  also have "\<dots> = take (length (filter (\<lambda>x. f x \<le> k) zs)) zs ! j"
    using j eq_k by simp
  also have "\<dots> = filter (\<lambda>x. f x = k) xs ! j"
    using take_eq eq_k by simp
  finally show ?thesis by (simp add: lo ys_def)
qed



section \<open>Mixed-radix decoding\<close>

lemma foldl_times: "foldl (\<lambda>a b. a * b) a ns = a * prod_list (ns :: nat list)"
  by (induction ns arbitrary: a) (simp_all add: mult.assoc)

lemma total_words_of_prod: "total_words_of ps = prod_list (map length ps)"
  by (simp add: total_words_of_def foldl_times)

lemma total_words_of_replicate:
  "total_words_of (L # replicate n A) = length L * length A ^ n"
  by (simp add: total_words_of_prod prod_list_replicate)

lemma total_words_of_pos: "\<forall>p \<in> set ps. p \<noteq> [] \<Longrightarrow> 0 < total_words_of ps"
  by (induction ps) (simp_all add: total_words_of_prod)

lemma calculate_words_exact:
  "\<forall>p \<in> set ps. p \<noteq> [] \<Longrightarrow> index < 2 ^ 53 \<Longrightarrow>
     calculate_words ps index acc = Inr (acc @ mixed_radix ps index)"
proof (induction ps arbitrary: index acc)
  case Nil
  then show ?case by simp
next
  case (Cons p ps)
  from Cons.prems have p: "0 < length p" by simp
  have d: "int_of_true_division index (length p) = Inr (index div length p)"
    using p Cons.prems(2) by (rule int_of_true_division_exact)
  have "index div length p \<le> index" by simp
  with Cons.prems(2) have "index div length p < 2 ^ 53" by linarith
  with Cons.IH [of "index div length p"] Cons.prems(1) p d show ?case by simp
qed

lemma mod_times_div:
  fixes x :: nat
  assumes "0 < n"
  shows "x mod (n * q) div n = x div n mod q"
proof -
  have "x mod (n * q) = n * (x div n mod q) + x mod n" by (rule mod_mult2_eq)
  then have "x mod (n * q) div n = (n * (x div n mod q) + x mod n) div n" by simp
  also have "\<dots> = x div n mod q" using assms by simp
  finally show ?thesis .
qed

lemma mixed_radix_mod:
  "\<forall>p \<in> set ps. p \<noteq> [] \<Longrightarrow>
     mixed_radix ps (x mod (prod_list (map length ps) * k)) = mixed_radix ps x"
proof (induction ps arbitrary: x)
  case Nil
  then show ?case by simp
next
  case (Cons p ps)
  define n where "n = length p"
  define q where "q = prod_list (map length ps) * k"
  from Cons.prems have n: "0 < n" unfolding n_def by simp
  have m: "x mod (n * q) mod n = x mod n" by (simp add: mod_mod_cancel)
  have dv: "x mod (n * q) div n = x div n mod q" using n by (rule mod_times_div)
  have "mixed_radix ps (x div n mod q) = mixed_radix ps (x div n)"
    unfolding q_def using Cons.prems by (intro Cons.IH) simp
  with m dv show ?case by (simp add: n_def [symmetric] q_def [symmetric] mult.assoc)
qed

lemma mixed_radix_append:
  "mixed_radix (ps @ [q]) x =
     mixed_radix ps x @ [q ! (x div prod_list (map length ps) mod length q)]"
  by (induction ps arbitrary: x) (simp_all add: div_mult2_eq)

lemma mixed_radix_length: "length (mixed_radix ps x) = length ps"
  by (induction ps arbitrary: x) simp_all

text \<open>One more list at the end adds one word in front of the reversed selection.\<close>

lemma mixed_radix_extend:
  assumes "\<forall>p \<in> set ps. p \<noteq> []"
  shows "rev (mixed_radix (ps @ [q]) (h mod total_words_of (ps @ [q]))) =
     q ! (h mod total_words_of (ps @ [q]) div total_words_of ps mod length q)
       # rev (mixed_radix ps (h mod total_words_of ps))"
proof -
  have "mixed_radix ps (h mod (prod_list (map length ps) * length q)) = mixed_radix ps h"
    using assms by (rule mixed_radix_mod)
  moreover have "mixed_radix ps (h mod (prod_list (map length ps) * 1)) = mixed_radix ps h"
    using assms by (rule mixed_radix_mod)
  ultimately show ?thesis
    by (simp add: mixed_radix_append total_words_of_prod)
qed


section \<open>Facts about the word lists\<close>

lemmas unsorted_defs =
  ADJECTIVES_unsorted_def NOUNS_unsorted_def
  ADJECTIVES_literal_def ADJECTIVES_extend1_def ADJECTIVES_extend2_def
  ADJECTIVES_extend3_def ADJECTIVES_extend4_def ADJECTIVES_extend5_def
  NOUNS_literal_def NOUNS_extend1_def NOUNS_extend2_def NOUNS_extend3_def

lemma length_NOUNS_unsorted: "length NOUNS_unsorted = 554"
  by (simp add: unsorted_defs)

lemma length_ADJECTIVES_unsorted: "length ADJECTIVES_unsorted = 642"
  by (simp add: unsorted_defs)

lemma length_NOUNS: "length NOUNS = 554"
  by (simp add: NOUNS_def length_NOUNS_unsorted)

lemma length_ADJECTIVES: "length ADJECTIVES = 642"
  by (simp add: ADJECTIVES_def length_ADJECTIVES_unsorted)

lemma NOUNS_no_empty_word: "[] \<notin> set NOUNS"
proof -
  have "list_all (\<lambda>w. w \<noteq> []) NOUNS_unsorted" by (simp add: unsorted_defs)
  then show ?thesis by (auto simp: NOUNS_def list_all_iff)
qed

lemma ADJECTIVES_no_empty_word: "[] \<notin> set ADJECTIVES"
proof -
  have "list_all (\<lambda>w. w \<noteq> []) ADJECTIVES_unsorted" by (simp add: unsorted_defs)
  then show ?thesis by (auto simp: ADJECTIVES_def list_all_iff)
qed

lemma air_in_NOUNS: "''air'' \<in> set NOUNS"
proof -
  have "''air'' \<in> set NOUNS_literal" by (simp add: NOUNS_literal_def)
  then show ?thesis by (simp add: NOUNS_def NOUNS_unsorted_def)
qed

lemma low_in_ADJECTIVES: "''low'' \<in> set ADJECTIVES"
proof -
  have "''low'' \<in> set ADJECTIVES_literal" by (simp add: ADJECTIVES_literal_def)
  then show ?thesis by (simp add: ADJECTIVES_def ADJECTIVES_unsorted_def)
qed

lemma sorted_NOUNS: "sorted (map length NOUNS)"
  by (simp add: NOUNS_def)

lemma sorted_ADJECTIVES: "sorted (map length ADJECTIVES)"
  by (simp add: ADJECTIVES_def)


section \<open>The word lists under a ceiling\<close>

lemma normalize_max_item_chars_eq: "normalize_max_item_chars m = normalized_ceiling m"
  by (simp add: normalize_max_item_chars_def normalized_ceiling_def)

lemma normalized_ceiling_range:
  "normalized_ceiling m \<le> 0 \<or> (3 \<le> normalized_ceiling m \<and> normalized_ceiling m \<le> 9)"
  by (auto simp: normalized_ceiling_def)

lemma LENGTHS_Some:
  assumes "3 \<le> n" "n \<le> 9"
  shows "LENGTHS ws n = Some (LengthIndex ws n)"
proof -
  from assms have "n \<in> {3, 4, 5, 6, 7, 8, 9}" by (simp add: insert_iff) presburger
  then show ?thesis by (simp only: LENGTHS_def LengthIndex_def if_True)
qed

lemma take_LengthIndex:
  assumes "sorted (map length ws)"
  shows "take (LengthIndex ws n) ws = filter (\<lambda>w. int (length w) \<le> n) ws"
  unfolding LengthIndex_def using assms
  by (rule take_filter_sorted) simp

lemma particle_lists_effective:
  "particle_lists adjectives (normalize_max_item_chars m) =
     Inr (effective_words NOUNS m # replicate (nat adjectives) (effective_words ADJECTIVES m))"
proof (cases "0 < normalized_ceiling m")
  case True
  with normalized_ceiling_range [of m]
  have r: "3 \<le> normalized_ceiling m" "normalized_ceiling m \<le> 9" by linarith+
  show ?thesis
    using True
    by (simp add: particle_lists_def normalize_max_item_chars_eq NOUNS_LENGTHS_def
        ADJECTIVES_LENGTHS_def LENGTHS_Some [OF r] take_LengthIndex sorted_NOUNS
        sorted_ADJECTIVES effective_words_def)
next
  case False
  then show ?thesis
    by (simp add: particle_lists_def normalize_max_item_chars_eq effective_words_def)
qed

lemma length_effective_NOUNS: "length (effective_words NOUNS m) = effectiveNounSize m"
  by (simp add: effective_words_def effectiveNounSize_def LengthIndex_def Let_def)

lemma length_effective_ADJECTIVES:
  "length (effective_words ADJECTIVES m) = effectiveAdjectiveSize m"
  by (simp add: effective_words_def effectiveAdjectiveSize_def LengthIndex_def Let_def)

lemma effective_words_subset: "set (effective_words ws m) \<subseteq> set ws"
  by (auto simp: effective_words_def Let_def)

lemma effective_words_nonempty:
  assumes "w \<in> set ws" "length w = 3"
  shows "effective_words ws m \<noteq> []"
proof (cases "0 < normalized_ceiling m")
  case True
  with normalized_ceiling_range [of m] have "3 \<le> normalized_ceiling m" by linarith
  with assms have "w \<in> set (filter (\<lambda>w. int (length w) \<le> normalized_ceiling m) ws)" by simp
  then have "filter (\<lambda>w. int (length w) \<le> normalized_ceiling m) ws \<noteq> []" by force
  with True show ?thesis by (simp add: effective_words_def Let_def)
next
  case False
  with assms show ?thesis by (auto simp: effective_words_def Let_def)
qed

lemma effective_NOUNS_nonempty: "effective_words NOUNS m \<noteq> []"
  using air_in_NOUNS by (rule effective_words_nonempty) simp

lemma effective_ADJECTIVES_nonempty: "effective_words ADJECTIVES m \<noteq> []"
  using low_in_ADJECTIVES by (rule effective_words_nonempty) simp

lemma effectiveNounSize_bounds: "0 < effectiveNounSize m \<and> effectiveNounSize m \<le> 554"
proof -
  have "effectiveNounSize m \<le> length NOUNS"
    by (simp add: effectiveNounSize_def LengthIndex_def Let_def)
  moreover have "0 < effectiveNounSize m"
    using effective_NOUNS_nonempty [of m] by (simp add: length_effective_NOUNS [symmetric])
  ultimately show ?thesis by (simp add: length_NOUNS)
qed

lemma effectiveAdjectiveSize_bounds:
  "0 < effectiveAdjectiveSize m \<and> effectiveAdjectiveSize m \<le> 642"
proof -
  have "effectiveAdjectiveSize m \<le> length ADJECTIVES"
    by (simp add: effectiveAdjectiveSize_def LengthIndex_def Let_def)
  moreover have "0 < effectiveAdjectiveSize m"
    using effective_ADJECTIVES_nonempty [of m]
    by (simp add: length_effective_ADJECTIVES [symmetric])
  ultimately show ?thesis by (simp add: length_ADJECTIVES)
qed

lemma total_words_effective:
  "total_words_of (effective_words NOUNS m # replicate n (effective_words ADJECTIVES m)) =
     effectiveNounSize m * effectiveAdjectiveSize m ^ n"
  by (simp add: total_words_of_replicate length_effective_NOUNS length_effective_ADJECTIVES)

lemma codenamize_particles_None:
  "codenamize_particles hashlib_new None adjectives m hash_algo =
     Inr (Space_Size (effectiveNounSize m * effectiveAdjectiveSize m ^ nat adjectives))"
  by (simp add: codenamize_particles_def particle_lists_effective total_words_effective)


section \<open>Counts and words of one length\<close>

text \<open>
  Evaluated on each list literal of the source, then put together for the whole lists.
\<close>

lemma shorter2_NOUNS_literal: "length (filter (\<lambda>w. length w < 2) NOUNS_literal) = 0"
  by code_simp

lemma shorter5_NOUNS_literal: "length (filter (\<lambda>w. length w < 5) NOUNS_literal) = 73"
  by code_simp

lemma upto5_NOUNS_literal: "length (filter (\<lambda>w. length w \<le> 5) NOUNS_literal) = 113"
  by code_simp

lemma words2_NOUNS_literal: "filter (\<lambda>w. length w = 2) NOUNS_literal = []"
  by code_simp

lemma words5_NOUNS_literal: "filter (\<lambda>w. length w = 5) NOUNS_literal = [
     ''bough'', ''brook'', ''cairn'', ''chime'', ''cliff'', ''cloud'', ''crest'', ''curve'',
     ''drift'', ''earth'', ''field'', ''flake'', ''frost'', ''glade'', ''gleam'', ''grain'',
     ''grove'', ''light'', ''night'', ''noise'', ''petal'', ''plain'', ''pulse'', ''ridge'',
     ''scale'', ''shade'', ''shape'', ''shell'', ''shine'', ''shoot'', ''shore'', ''smoke'',
     ''spark'', ''spine'', ''stone'', ''track'', ''trail'', ''trunk'', ''voice'', ''whirl'']"
  by code_simp

lemma shorter2_NOUNS_extend1: "length (filter (\<lambda>w. length w < 2) NOUNS_extend1) = 0"
  by code_simp

lemma shorter5_NOUNS_extend1: "length (filter (\<lambda>w. length w < 5) NOUNS_extend1) = 64"
  by code_simp

lemma upto5_NOUNS_extend1: "length (filter (\<lambda>w. length w \<le> 5) NOUNS_extend1) = 108"
  by code_simp

lemma words2_NOUNS_extend1: "filter (\<lambda>w. length w = 2) NOUNS_extend1 = []"
  by code_simp

lemma words5_NOUNS_extend1: "filter (\<lambda>w. length w = 5) NOUNS_extend1 = [
     ''birch'', ''bloom'', ''cedar'', ''climb'', ''cover'', ''crust'', ''ember'', ''fiber'',
     ''flare'', ''layer'', ''niche'', ''patch'', ''perch'', ''pitch'', ''plane'', ''print'',
     ''pulse'', ''quiet'', ''reach'', ''scuff'', ''scrub'', ''shade'', ''shaft'', ''sheen'',
     ''shoot'', ''shrub'', ''slope'', ''spark'', ''speck'', ''spore'', ''spray'', ''sprig'',
     ''stack'', ''stone'', ''stump'', ''swirl'', ''thorn'', ''thrum'', ''thump'', ''track'',
     ''vault'', ''verge'', ''vista'', ''whirl'']"
  by code_simp

lemma shorter2_NOUNS_extend2: "length (filter (\<lambda>w. length w < 2) NOUNS_extend2) = 0"
  by code_simp

lemma shorter5_NOUNS_extend2: "length (filter (\<lambda>w. length w < 5) NOUNS_extend2) = 61"
  by code_simp

lemma upto5_NOUNS_extend2: "length (filter (\<lambda>w. length w \<le> 5) NOUNS_extend2) = 110"
  by code_simp

lemma words2_NOUNS_extend2: "filter (\<lambda>w. length w = 2) NOUNS_extend2 = [
     ''ox'']"
  by code_simp

lemma words5_NOUNS_extend2: "filter (\<lambda>w. length w = 5) NOUNS_extend2 = [
     ''berry'', ''bison'', ''briar'', ''cedar'', ''conch'', ''crane'', ''creek'', ''cress'',
     ''egret'', ''finch'', ''flint'', ''goose'', ''heron'', ''lotus'', ''mulch'', ''peach'',
     ''pearl'', ''peril'', ''poppy'', ''quail'', ''quill'', ''raven'', ''robin'', ''scale'',
     ''shell'', ''shrub'', ''sleet'', ''snail'', ''snake'', ''spine'', ''squid'', ''stork'',
     ''swift'', ''thorn'', ''topaz'', ''trail'', ''trunk'', ''whale'', ''wheat'', ''amber'',
     ''basin'', ''cairn'', ''flare'', ''grove'', ''marsh'', ''niche'', ''shoal'', ''slope'',
     ''spume'']"
  by code_simp

lemma shorter2_NOUNS_extend3: "length (filter (\<lambda>w. length w < 2) NOUNS_extend3) = 0"
  by code_simp

lemma shorter5_NOUNS_extend3: "length (filter (\<lambda>w. length w < 5) NOUNS_extend3) = 27"
  by code_simp

lemma upto5_NOUNS_extend3: "length (filter (\<lambda>w. length w \<le> 5) NOUNS_extend3) = 59"
  by code_simp

lemma words2_NOUNS_extend3: "filter (\<lambda>w. length w = 2) NOUNS_extend3 = []"
  by code_simp

lemma words5_NOUNS_extend3: "filter (\<lambda>w. length w = 5) NOUNS_extend3 = [
     ''alder'', ''atoll'', ''birch'', ''bloom'', ''bluff'', ''briar'', ''brine'', ''cedar'',
     ''chasm'', ''coral'', ''crook'', ''delta'', ''depth'', ''fjord'', ''flint'', ''grove'',
     ''hazel'', ''lotus'', ''marsh'', ''pansy'', ''peony'', ''relic'', ''ridge'', ''river'',
     ''sedge'', ''shard'', ''sheaf'', ''sleet'', ''spume'', ''swale'', ''vetch'', ''vista'']"
  by code_simp

lemma shorter5_ADJECTIVES_literal: "length (filter (\<lambda>w. length w < 5) ADJECTIVES_literal) = 16"
  by code_simp

lemma shorter8_ADJECTIVES_literal: "length (filter (\<lambda>w. length w < 8) ADJECTIVES_literal) = 91"
  by code_simp

lemma upto5_ADJECTIVES_literal: "length (filter (\<lambda>w. length w \<le> 5) ADJECTIVES_literal) = 31"
  by code_simp

lemma words5_ADJECTIVES_literal: "filter (\<lambda>w. length w = 5) ADJECTIVES_literal = [
     ''still'', ''empty'', ''quiet'', ''whole'', ''light'', ''clear'', ''aware'', ''loose'',
     ''fresh'', ''plain'', ''faint'', ''lowly'', ''woven'', ''mossy'', ''early'']"
  by code_simp

lemma words8_ADJECTIVES_literal: "filter (\<lambda>w. length w = 8) ADJECTIVES_literal = [
     ''unforced'', ''yielding'', ''grounded'', ''balanced'', ''flexible'', ''timeless'',
     ''dwelling'', ''fragrant'', ''tranquil'', ''gracious'', ''seasoned'', ''drifting'',
     ''watchful'', ''receding'', ''floating'', ''unsought'', ''gentlest'', ''seasonal'',
     ''spiraled'', ''shadowed'', ''pathless'', ''barefoot'', ''lightest'', ''emptiest'',
     ''earliest'', ''stillest'', ''quietest'', ''gentlest'', ''simplest'', ''shifting'',
     ''floating'', ''settling'', ''stilling'', ''clearing'']"
  by code_simp

lemma shorter5_ADJECTIVES_extend1: "length (filter (\<lambda>w. length w < 5) ADJECTIVES_extend1) = 0"
  by code_simp

lemma shorter8_ADJECTIVES_extend1: "length (filter (\<lambda>w. length w < 8) ADJECTIVES_extend1) = 47"
  by code_simp

lemma upto5_ADJECTIVES_extend1: "length (filter (\<lambda>w. length w \<le> 5) ADJECTIVES_extend1) = 3"
  by code_simp

lemma words5_ADJECTIVES_extend1: "filter (\<lambda>w. length w = 5) ADJECTIVES_extend1 = [
     ''purer'', ''lower'', ''older'']"
  by code_simp

lemma words8_ADJECTIVES_extend1: "filter (\<lambda>w. length w = 8) ADJECTIVES_extend1 = [
     ''steadier'', ''smoother'', ''brighter'', ''settling'', ''drifting'', ''stilling'',
     ''shifting'', ''thinning'', ''clearing'', ''lowering'', ''quieting'', ''stilling'',
     ''touching'', ''yielding'', ''spanning'', ''hovering'', ''brimming'', ''spilling'',
     ''blooming'', ''renewing'', ''stilling'', ''stilling'', ''emptying'', ''gleaming'',
     ''clouding'', ''clearing'', ''soothing'']"
  by code_simp

lemma shorter5_ADJECTIVES_extend2: "length (filter (\<lambda>w. length w < 5) ADJECTIVES_extend2) = 1"
  by code_simp

lemma shorter8_ADJECTIVES_extend2: "length (filter (\<lambda>w. length w < 8) ADJECTIVES_extend2) = 45"
  by code_simp

lemma upto5_ADJECTIVES_extend2: "length (filter (\<lambda>w. length w \<le> 5) ADJECTIVES_extend2) = 8"
  by code_simp

lemma words5_ADJECTIVES_extend2: "filter (\<lambda>w. length w = 5) ADJECTIVES_extend2 = [
     ''leafy'', ''misty'', ''woody'', ''stony'', ''muddy'', ''windy'', ''dusty'']"
  by code_simp

lemma words8_ADJECTIVES_extend2: "filter (\<lambda>w. length w = 8) ADJECTIVES_extend2 = [
     ''ripening'', ''shedding'', ''drooping'', ''drifting'', ''floating'', ''hovering'',
     ''gleaming'', ''reaching'', ''climbing'', ''crawling'', ''settling'', ''soothing'',
     ''stilling'', ''quieting'', ''draining'', ''blooming'', ''rippling'', ''freezing'',
     ''covering'', ''clearing'', ''watching'', ''drifting'', ''spanning'']"
  by code_simp

lemma shorter5_ADJECTIVES_extend3: "length (filter (\<lambda>w. length w < 5) ADJECTIVES_extend3) = 2"
  by code_simp

lemma shorter8_ADJECTIVES_extend3: "length (filter (\<lambda>w. length w < 8) ADJECTIVES_extend3) = 57"
  by code_simp

lemma upto5_ADJECTIVES_extend3: "length (filter (\<lambda>w. length w \<le> 5) ADJECTIVES_extend3) = 7"
  by code_simp

lemma words5_ADJECTIVES_extend3: "filter (\<lambda>w. length w = 5) ADJECTIVES_extend3 = [
     ''rocky'', ''sandy'', ''foggy'', ''smoky'', ''woven'']"
  by code_simp

lemma words8_ADJECTIVES_extend3: "filter (\<lambda>w. length w = 8) ADJECTIVES_extend3 = [
     ''speckled'', ''furrowed'', ''infinite'', ''becoming'', ''rippling'', ''gleaming'',
     ''inviting'', ''cradling'', ''layering'', ''stilling'', ''clearing'', ''receding'',
     ''skimming'', ''shifting'', ''slipping'', ''twisting'']"
  by code_simp

lemma shorter5_ADJECTIVES_extend4: "length (filter (\<lambda>w. length w < 5) ADJECTIVES_extend4) = 1"
  by code_simp

lemma shorter8_ADJECTIVES_extend4: "length (filter (\<lambda>w. length w < 8) ADJECTIVES_extend4) = 62"
  by code_simp

lemma upto5_ADJECTIVES_extend4: "length (filter (\<lambda>w. length w \<le> 5) ADJECTIVES_extend4) = 11"
  by code_simp

lemma words5_ADJECTIVES_extend4: "filter (\<lambda>w. length w = 5) ADJECTIVES_extend4 = [
     ''woody'', ''barky'', ''matte'', ''muted'', ''faded'', ''paled'', ''crisp'', ''sandy'',
     ''laced'', ''lined'']"
  by code_simp

lemma words8_ADJECTIVES_extend4: "filter (\<lambda>w. length w = 8) ADJECTIVES_extend4 = [
     ''rootless'', ''lichened'', ''fissured'', ''smoothed'', ''polished'', ''softened'',
     ''windworn'', ''bleached'', ''shadowed'', ''drenched'', ''stubbled'', ''graveled'',
     ''furrowed'', ''sprouted'', ''flowered'', ''littered'', ''canopied'', ''pillared'',
     ''terraced'', ''threaded'', ''furrowed'', ''wrinkled'']"
  by code_simp

lemma shorter5_ADJECTIVES_extend5: "length (filter (\<lambda>w. length w < 5) ADJECTIVES_extend5) = 4"
  by code_simp

lemma shorter8_ADJECTIVES_extend5: "length (filter (\<lambda>w. length w < 8) ADJECTIVES_extend5) = 61"
  by code_simp

lemma upto5_ADJECTIVES_extend5: "length (filter (\<lambda>w. length w \<le> 5) ADJECTIVES_extend5) = 11"
  by code_simp

lemma words5_ADJECTIVES_extend5: "filter (\<lambda>w. length w = 5) ADJECTIVES_extend5 = [
     ''drawn'', ''vivid'', ''fused'', ''woven'', ''borne'', ''drawn'', ''borne'']"
  by code_simp

lemma words8_ADJECTIVES_extend5: "filter (\<lambda>w. length w = 8) ADJECTIVES_extend5 = [
     ''layering'', ''singular'', ''yielding'', ''pressing'', ''wavering'', ''cresting'',
     ''plunging'', ''hovering'', ''seasonal'', ''delicate'', ''fleeting'', ''revealed'',
     ''drifting'', ''drenched'', ''softened'', ''floating'', ''circling'', ''glinting'',
     ''gleaming'', ''flashing'', ''streamed'', ''narrowed'', ''cleansed'', ''smoothed'']"
  by code_simp

lemma shorter2_NOUNS: "length (filter (\<lambda>w. length w < 2) NOUNS_unsorted) = 0"
  by (simp add: NOUNS_unsorted_def shorter2_NOUNS_literal shorter2_NOUNS_extend1 shorter2_NOUNS_extend2 shorter2_NOUNS_extend3)

lemma shorter5_NOUNS: "length (filter (\<lambda>w. length w < 5) NOUNS_unsorted) = 225"
  by (simp add: NOUNS_unsorted_def shorter5_NOUNS_literal shorter5_NOUNS_extend1 shorter5_NOUNS_extend2 shorter5_NOUNS_extend3)

lemma upto5_NOUNS: "length (filter (\<lambda>w. length w \<le> 5) NOUNS_unsorted) = 390"
  by (simp add: NOUNS_unsorted_def upto5_NOUNS_literal upto5_NOUNS_extend1 upto5_NOUNS_extend2 upto5_NOUNS_extend3)

lemma words2_NOUNS: "filter (\<lambda>w. length w = 2) NOUNS_unsorted = [
     ''ox'']"
  by (simp add: NOUNS_unsorted_def words2_NOUNS_literal words2_NOUNS_extend1 words2_NOUNS_extend2 words2_NOUNS_extend3)

lemma words5_NOUNS: "filter (\<lambda>w. length w = 5) NOUNS_unsorted = [
     ''bough'', ''brook'', ''cairn'', ''chime'', ''cliff'', ''cloud'', ''crest'', ''curve'',
     ''drift'', ''earth'', ''field'', ''flake'', ''frost'', ''glade'', ''gleam'', ''grain'',
     ''grove'', ''light'', ''night'', ''noise'', ''petal'', ''plain'', ''pulse'', ''ridge'',
     ''scale'', ''shade'', ''shape'', ''shell'', ''shine'', ''shoot'', ''shore'', ''smoke'',
     ''spark'', ''spine'', ''stone'', ''track'', ''trail'', ''trunk'', ''voice'', ''whirl'',
     ''birch'', ''bloom'', ''cedar'', ''climb'', ''cover'', ''crust'', ''ember'', ''fiber'',
     ''flare'', ''layer'', ''niche'', ''patch'', ''perch'', ''pitch'', ''plane'', ''print'',
     ''pulse'', ''quiet'', ''reach'', ''scuff'', ''scrub'', ''shade'', ''shaft'', ''sheen'',
     ''shoot'', ''shrub'', ''slope'', ''spark'', ''speck'', ''spore'', ''spray'', ''sprig'',
     ''stack'', ''stone'', ''stump'', ''swirl'', ''thorn'', ''thrum'', ''thump'', ''track'',
     ''vault'', ''verge'', ''vista'', ''whirl'', ''berry'', ''bison'', ''briar'', ''cedar'',
     ''conch'', ''crane'', ''creek'', ''cress'', ''egret'', ''finch'', ''flint'', ''goose'',
     ''heron'', ''lotus'', ''mulch'', ''peach'', ''pearl'', ''peril'', ''poppy'', ''quail'',
     ''quill'', ''raven'', ''robin'', ''scale'', ''shell'', ''shrub'', ''sleet'', ''snail'',
     ''snake'', ''spine'', ''squid'', ''stork'', ''swift'', ''thorn'', ''topaz'', ''trail'',
     ''trunk'', ''whale'', ''wheat'', ''amber'', ''basin'', ''cairn'', ''flare'', ''grove'',
     ''marsh'', ''niche'', ''shoal'', ''slope'', ''spume'', ''alder'', ''atoll'', ''birch'',
     ''bloom'', ''bluff'', ''briar'', ''brine'', ''cedar'', ''chasm'', ''coral'', ''crook'',
     ''delta'', ''depth'', ''fjord'', ''flint'', ''grove'', ''hazel'', ''lotus'', ''marsh'',
     ''pansy'', ''peony'', ''relic'', ''ridge'', ''river'', ''sedge'', ''shard'', ''sheaf'',
     ''sleet'', ''spume'', ''swale'', ''vetch'', ''vista'']"
  by (simp add: NOUNS_unsorted_def words5_NOUNS_literal words5_NOUNS_extend1 words5_NOUNS_extend2 words5_NOUNS_extend3)

lemma shorter5_ADJECTIVES: "length (filter (\<lambda>w. length w < 5) ADJECTIVES_unsorted) = 24"
  by (simp add: ADJECTIVES_unsorted_def shorter5_ADJECTIVES_literal shorter5_ADJECTIVES_extend1 shorter5_ADJECTIVES_extend2 shorter5_ADJECTIVES_extend3 shorter5_ADJECTIVES_extend4 shorter5_ADJECTIVES_extend5)

lemma shorter8_ADJECTIVES: "length (filter (\<lambda>w. length w < 8) ADJECTIVES_unsorted) = 363"
  by (simp add: ADJECTIVES_unsorted_def shorter8_ADJECTIVES_literal shorter8_ADJECTIVES_extend1 shorter8_ADJECTIVES_extend2 shorter8_ADJECTIVES_extend3 shorter8_ADJECTIVES_extend4 shorter8_ADJECTIVES_extend5)

lemma upto5_ADJECTIVES: "length (filter (\<lambda>w. length w \<le> 5) ADJECTIVES_unsorted) = 71"
  by (simp add: ADJECTIVES_unsorted_def upto5_ADJECTIVES_literal upto5_ADJECTIVES_extend1 upto5_ADJECTIVES_extend2 upto5_ADJECTIVES_extend3 upto5_ADJECTIVES_extend4 upto5_ADJECTIVES_extend5)

lemma words5_ADJECTIVES: "filter (\<lambda>w. length w = 5) ADJECTIVES_unsorted = [
     ''still'', ''empty'', ''quiet'', ''whole'', ''light'', ''clear'', ''aware'', ''loose'',
     ''fresh'', ''plain'', ''faint'', ''lowly'', ''woven'', ''mossy'', ''early'', ''purer'',
     ''lower'', ''older'', ''leafy'', ''misty'', ''woody'', ''stony'', ''muddy'', ''windy'',
     ''dusty'', ''rocky'', ''sandy'', ''foggy'', ''smoky'', ''woven'', ''woody'', ''barky'',
     ''matte'', ''muted'', ''faded'', ''paled'', ''crisp'', ''sandy'', ''laced'', ''lined'',
     ''drawn'', ''vivid'', ''fused'', ''woven'', ''borne'', ''drawn'', ''borne'']"
  by (simp add: ADJECTIVES_unsorted_def words5_ADJECTIVES_literal words5_ADJECTIVES_extend1 words5_ADJECTIVES_extend2 words5_ADJECTIVES_extend3 words5_ADJECTIVES_extend4 words5_ADJECTIVES_extend5)

lemma words8_ADJECTIVES: "filter (\<lambda>w. length w = 8) ADJECTIVES_unsorted = [
     ''unforced'', ''yielding'', ''grounded'', ''balanced'', ''flexible'', ''timeless'',
     ''dwelling'', ''fragrant'', ''tranquil'', ''gracious'', ''seasoned'', ''drifting'',
     ''watchful'', ''receding'', ''floating'', ''unsought'', ''gentlest'', ''seasonal'',
     ''spiraled'', ''shadowed'', ''pathless'', ''barefoot'', ''lightest'', ''emptiest'',
     ''earliest'', ''stillest'', ''quietest'', ''gentlest'', ''simplest'', ''shifting'',
     ''floating'', ''settling'', ''stilling'', ''clearing'', ''steadier'', ''smoother'',
     ''brighter'', ''settling'', ''drifting'', ''stilling'', ''shifting'', ''thinning'',
     ''clearing'', ''lowering'', ''quieting'', ''stilling'', ''touching'', ''yielding'',
     ''spanning'', ''hovering'', ''brimming'', ''spilling'', ''blooming'', ''renewing'',
     ''stilling'', ''stilling'', ''emptying'', ''gleaming'', ''clouding'', ''clearing'',
     ''soothing'', ''ripening'', ''shedding'', ''drooping'', ''drifting'', ''floating'',
     ''hovering'', ''gleaming'', ''reaching'', ''climbing'', ''crawling'', ''settling'',
     ''soothing'', ''stilling'', ''quieting'', ''draining'', ''blooming'', ''rippling'',
     ''freezing'', ''covering'', ''clearing'', ''watching'', ''drifting'', ''spanning'',
     ''speckled'', ''furrowed'', ''infinite'', ''becoming'', ''rippling'', ''gleaming'',
     ''inviting'', ''cradling'', ''layering'', ''stilling'', ''clearing'', ''receding'',
     ''skimming'', ''shifting'', ''slipping'', ''twisting'', ''rootless'', ''lichened'',
     ''fissured'', ''smoothed'', ''polished'', ''softened'', ''windworn'', ''bleached'',
     ''shadowed'', ''drenched'', ''stubbled'', ''graveled'', ''furrowed'', ''sprouted'',
     ''flowered'', ''littered'', ''canopied'', ''pillared'', ''terraced'', ''threaded'',
     ''furrowed'', ''wrinkled'', ''layering'', ''singular'', ''yielding'', ''pressing'',
     ''wavering'', ''cresting'', ''plunging'', ''hovering'', ''seasonal'', ''delicate'',
     ''fleeting'', ''revealed'', ''drifting'', ''drenched'', ''softened'', ''floating'',
     ''circling'', ''glinting'', ''gleaming'', ''flashing'', ''streamed'', ''narrowed'',
     ''cleansed'', ''smoothed'']"
  by (simp add: ADJECTIVES_unsorted_def words8_ADJECTIVES_literal words8_ADJECTIVES_extend1 words8_ADJECTIVES_extend2 words8_ADJECTIVES_extend3 words8_ADJECTIVES_extend4 words8_ADJECTIVES_extend5)

section \<open>The digest as an integer\<close>

lemma hex_value_hex_digit: "d < 16 \<Longrightarrow> hex_value (hex_digit d) = Some d"
  by (simp add: hex_value_def hex_digit_def Let_def)

lemma int_base16_from_hexdigest:
  "int_base16_from acc (hexdigest bs) = Inr (foldl (\<lambda>n b. n * 256 + unat b) acc bs)"
proof (induction bs arbitrary: acc)
  case Nil
  then show ?case by (simp add: hexdigest_def)
next
  case (Cons b bs)
  have "unat b < 256" using unsigned_less [of b] by simp
  then have hi: "unat b div 16 < 16" and lo: "unat b mod 16 < 16" by simp_all
  have split: "(acc * 16 + unat b div 16) * 16 + unat b mod 16 = acc * 256 + unat b"
    by (simp add: algebra_simps)
  have "int_base16_from acc (hexdigest (b # bs)) =
      int_base16_from ((acc * 16 + unat b div 16) * 16 + unat b mod 16) (hexdigest bs)"
    by (simp add: hexdigest_def hex_value_hex_digit [OF hi] hex_value_hex_digit [OF lo])
  then show ?case by (simp only: split Cons.IH foldl_Cons)
qed

lemma hexdigest_empty: "hexdigest bs = [] \<longleftrightarrow> bs = []"
  by (cases bs) (simp_all add: hexdigest_def)

lemma int_base16_hexdigest: "bs \<noteq> [] \<Longrightarrow> int_base16 (hexdigest bs) = Inr (big_endian bs)"
  by (simp add: int_base16_def hexdigest_empty int_base16_from_hexdigest big_endian_def)

lemma obj_hash_of_Digest:
  assumes "hashlib_new hash_algo = Some (Digest d)" "d bs \<noteq> []"
  shows "obj_hash_of hashlib_new hash_algo bs = Inr (big_endian (d bs) * 36413321723440003717)"
  using assms by (simp add: obj_hash_of_def int_base16_hexdigest multiplier_def)


section \<open>The particles where the space is below \<open>2\<^sup>5\<^sup>3\<close>\<close>

lemma decode_particles_eq:
  "decode_particles x n m =
     rev (mixed_radix (effective_words NOUNS m # replicate n (effective_words ADJECTIVES m))
       (x mod (effectiveNounSize m * effectiveAdjectiveSize m ^ n)))"
  by (simp add: decode_particles_def Let_def prod_list_replicate length_effective_NOUNS
      length_effective_ADJECTIVES)

lemma codenamize_particles_exact:
  assumes bytes: "obj_bytes ob = Inr bs"
    and hash: "obj_hash_of hashlib_new hash_algo bs = Inr x"
    and small: "effectiveNounSize m * effectiveAdjectiveSize m ^ nat adjectives \<le> 2 ^ 53"
  shows "codenamize_particles hashlib_new (Some ob) adjectives m hash_algo =
     Inr (Particles (decode_particles x (nat adjectives) m))"
proof -
  define lists where
    "lists = effective_words NOUNS m # replicate (nat adjectives) (effective_words ADJECTIVES m)"
  define total where "total = effectiveNounSize m * effectiveAdjectiveSize m ^ nat adjectives"
  have total: "total_words_of lists = total"
    unfolding lists_def total_def by (rule total_words_effective)
  have nonempty: "\<forall>p \<in> set lists. p \<noteq> []"
    unfolding lists_def using effective_NOUNS_nonempty effective_ADJECTIVES_nonempty by auto
  have pos: "0 < total"
    unfolding total_def using effectiveNounSize_bounds effectiveAdjectiveSize_bounds by simp
  then have "x mod total < total" by simp
  with small have "x mod total < 2 ^ 53" unfolding total_def by linarith
  with nonempty have "calculate_words lists (x mod total) [] = Inr ([] @ mixed_radix lists (x mod total))"
    by (rule calculate_words_exact)
  with pos show ?thesis
    by (simp add: codenamize_particles_def particle_lists_effective lists_def [symmetric]
        total bytes hash total_def [symmetric] decode_particles_eq)
qed

lemma decode_particles_0:
  "decode_particles x 0 m = [effective_words NOUNS m ! (x mod effectiveNounSize m)]"
  by (simp add: decode_particles_eq length_effective_NOUNS)

lemma decode_particles_Suc:
  "\<exists>w \<in> set (effective_words ADJECTIVES m).
     decode_particles x (Suc n) m = w # decode_particles x n m"
proof -
  define EN where "EN = effective_words NOUNS m"
  define EA where "EA = effective_words ADJECTIVES m"
  define ps where "ps = EN # replicate n EA"
  have ps_Suc: "EN # replicate (Suc n) EA = ps @ [EA]"
    unfolding ps_def by (simp add: replicate_append_same)
  have nonempty: "\<forall>p \<in> set ps. p \<noteq> []"
    unfolding ps_def EN_def EA_def
    using effective_NOUNS_nonempty effective_ADJECTIVES_nonempty by auto
  define w where
    "w = EA ! (x mod total_words_of (ps @ [EA]) div total_words_of ps mod length EA)"
  have "length EA \<noteq> 0"
    unfolding EA_def using effective_ADJECTIVES_nonempty by simp
  then have "w \<in> set EA" unfolding w_def by simp
  moreover have "decode_particles x (Suc n) m = w # decode_particles x n m"
    using mixed_radix_extend [OF nonempty, of EA x]
    by (simp add: decode_particles_def Let_def EN_def [symmetric] EA_def [symmetric] ps_Suc
        ps_def [symmetric] w_def total_words_of_prod del: replicate_Suc)
  ultimately show ?thesis unfolding EA_def by blast
qed

lemma decode_particles_no_empty_word: "[] \<notin> set (decode_particles x n m)"
proof (induction n)
  case 0
  have "x mod effectiveNounSize m < length (effective_words NOUNS m)"
    using effectiveNounSize_bounds [of m] by (simp add: length_effective_NOUNS)
  then have "effective_words NOUNS m ! (x mod effectiveNounSize m) \<in> set NOUNS"
    using effective_words_subset [of NOUNS m] nth_mem by blast
  with NOUNS_no_empty_word show ?case by (auto simp: decode_particles_0)
next
  case (Suc n)
  obtain w where w: "w \<in> set (effective_words ADJECTIVES m)"
    and step: "decode_particles x (Suc n) m = w # decode_particles x n m"
    using decode_particles_Suc by blast
  from w have "w \<in> set ADJECTIVES" using effective_words_subset by blast
  with ADJECTIVES_no_empty_word have "w \<noteq> []" by auto
  with Suc step show ?case by auto
qed

lemma space_small:
  assumes "n \<le> 2"
  shows "effectiveNounSize m * effectiveAdjectiveSize m ^ n \<le> 2 ^ 53"
proof -
  have "effectiveAdjectiveSize m ^ n \<le> 642 ^ n"
    using effectiveAdjectiveSize_bounds by (intro power_mono) simp_all
  also have "(642::nat) ^ n \<le> 642 ^ 2" using assms by (intro power_increasing) simp_all
  finally have "effectiveNounSize m * effectiveAdjectiveSize m ^ n \<le> 554 * 642 ^ 2"
    using effectiveNounSize_bounds by (intro mult_mono) simp_all
  also have "\<dots> \<le> (2::nat) ^ 53" by simp
  finally show ?thesis .
qed


section \<open>The decimal string of an integer\<close>

lemma digits_value_snoc: "digits_value (ds @ [d]) = digits_value ds * 10 + (d - 48)"
  by (simp add: digits_value_def)

lemma digits10_value: "digits_value (digits10 n) = n"
proof (induction n rule: digits10.induct)
  case (1 n)
  show ?case
  proof (cases "n < 10")
    case True
    then show ?thesis by (simp add: digits10.simps [of n] digits_value_def)
  next
    case False
    with 1 have "digits_value (digits10 (n div 10)) = n div 10" by simp
    with False show ?thesis by (simp add: digits10.simps [of n] digits_value_snoc)
  qed
qed

lemma digits10_digits: "c \<in> set (digits10 n) \<Longrightarrow> 48 \<le> c \<and> c \<le> 57"
proof (induction n rule: digits10.induct)
  case (1 n)
  show ?case
  proof (cases "n < 10")
    case True
    with 1(2) show ?thesis by (simp add: digits10.simps [of n])
  next
    case False
    with 1 show ?thesis by (auto simp: digits10.simps [of n])
  qed
qed

lemma digits10_nonempty: "digits10 n \<noteq> []"
  by (simp add: digits10.simps [of n])

lemma decimal_value_str_int: "decimal_value (str_int i) = i"
proof (cases "i < 0")
  case True
  then show ?thesis by (simp add: str_int_def decimal_value_def digits10_value)
next
  case False
  obtain c cs where d: "digits10 (nat i) = c # cs"
    using digits10_nonempty [of "nat i"] by (cases "digits10 (nat i)") auto
  then have "c \<in> set (digits10 (nat i))" by simp
  then have "c \<noteq> 45" using digits10_digits by fastforce
  with False d digits10_value [of "nat i"] show ?thesis
    by (simp add: str_int_def decimal_value_def)
qed

lemma encode_utf8_ascii:
  "\<forall>c \<in> set cs. c < 128 \<Longrightarrow> encode_utf8 cs = Inr (map of_nat cs)"
  by (induction cs) (simp_all add: utf8_code_point_def)

lemma str_int_ascii: "c \<in> set (str_int i) \<Longrightarrow> c < 128"
  using digits10_digits by (fastforce simp: str_int_def split: if_splits)

lemma obj_bytes_PyInt: "obj_bytes (PyInt i) = Inr (map of_nat (str_int i))"
  using str_int_ascii by (simp add: obj_bytes_def encode_utf8_ascii)


section \<open>The claims\<close>

text \<open>
  C2: for every adjective count \<open>a \<ge> 0\<close> and every character ceiling,
  \<^verbatim>\<open>codenamize_particles\<close> with \<^verbatim>\<open>obj = None\<close> returns an integer, not a list of
  words: the effective noun size times the effective adjective size to the power \<open>a\<close>,
  both under the normalised ceiling; for \<open>a = 0\<close> it is the effective noun size; and
  \<^verbatim>\<open>codenamize_space\<close> returns the same value.
\<close>

theorem C2_space_size:
  "codenamize_particles hashlib_new None (int a) m hash_algo =
     Inr (Space_Size (effectiveNounSize m * effectiveAdjectiveSize m ^ a))
   \<and> codenamize_particles hashlib_new None 0 m hash_algo = Inr (Space_Size (effectiveNounSize m))
   \<and> codenamize_space hashlib_new (int a) m hash_algo =
       codenamize_particles hashlib_new None (int a) m hash_algo"
  by (simp add: codenamize_particles_None codenamize_space_def)

text \<open>
  C5: for every integer \<open>n\<close> and every choice of the other arguments, \<^verbatim>\<open>codenamize\<close>
  of \<open>n\<close> is \<^verbatim>\<open>codenamize\<close> of the decimal string of \<open>n\<close>: the integer is converted
  to its base-10 string (whose value is \<open>n\<close>), and the string is encoded as UTF-8 (one
  byte per digit or sign) before hashing.
\<close>

theorem C5_integer_as_decimal_string:
  "codenamize hashlib_new (Some (PyInt n)) adjectives m join capitalize hash_algo =
     codenamize hashlib_new (Some (PyText (str_int n))) adjectives m join capitalize hash_algo
   \<and> decimal_value (str_int n) = n
   \<and> obj_bytes (PyInt n) = Inr (map of_nat (str_int n))
   \<and> obj_bytes (PyText (str_int n)) = Inr (map of_nat (str_int n))"
proof -
  have bytes: "obj_bytes (PyText (str_int n)) = obj_bytes (PyInt n)"
    by (simp add: obj_bytes_def)
  have "codenamize_particles hashlib_new (Some (PyInt n)) adjectives m hash_algo =
      codenamize_particles hashlib_new (Some (PyText (str_int n))) adjectives m hash_algo"
    by (simp add: codenamize_particles_def particle_lists_effective bytes)
  then show ?thesis
    by (simp add: codenamize_def decimal_value_str_int bytes obj_bytes_PyInt)
qed

text \<open>
  C6: for every adjective count the space size with ceiling 1 is the space size with
  ceiling 3, and the space size with ceiling 10 is the space size with ceiling 0; the same
  normalisation (a ceiling strictly between 0 and 3 becomes 3, one above 9 becomes 0)
  governs the selection of words for an object.
\<close>

theorem C6_ceiling_normalisation:
  "codenamize_space hashlib_new a 1 hash_algo = codenamize_space hashlib_new a 3 hash_algo
   \<and> codenamize_space hashlib_new a 10 hash_algo = codenamize_space hashlib_new a 0 hash_algo
   \<and> codenamize_particles hashlib_new obj a 1 hash_algo =
       codenamize_particles hashlib_new obj a 3 hash_algo
   \<and> codenamize_particles hashlib_new obj a 2 hash_algo =
       codenamize_particles hashlib_new obj a 3 hash_algo
   \<and> codenamize_particles hashlib_new obj a 10 hash_algo =
       codenamize_particles hashlib_new obj a 0 hash_algo
   \<and> codenamize_particles hashlib_new obj a m hash_algo =
       codenamize_particles hashlib_new obj a
         (if 0 < m \<and> m < 3 then 3 else if 9 < m then 0 else m) hash_algo"
  by (simp add: codenamize_space_def codenamize_particles_def normalize_max_item_chars_def)

text \<open>
  C9: for every adjective count and ceiling, and any two names of hash algorithms (known
  to the library or not), \<^verbatim>\<open>codenamize_space\<close> returns the same size, and it returns a
  size, not an error: the algorithm is looked up only after the return for
  \<^verbatim>\<open>obj is None\<close>.
\<close>

theorem C9_space_size_ignores_hash_algo:
  "codenamize_space hashlib_new a m h1 = codenamize_space hashlib_new' a m h2
   \<and> (\<exists>n. codenamize_space hashlib_new a m h1 = Inr (Space_Size n))"
  by (simp add: codenamize_space_def codenamize_particles_None)

text \<open>
  C10: a negative adjective count behaves as the count 0, for every object, ceiling and
  hash algorithm: \<^verbatim>\<open>range(0, adjectives)\<close> is empty, so no error comes of it; without
  an object the result is the noun-only space size, and for an object whose hashing
  succeeds it is the list of one word, the noun.
\<close>

theorem C10_negative_adjectives:
  assumes "adjectives < 0"
  shows "codenamize_particles hashlib_new obj adjectives m hash_algo =
       codenamize_particles hashlib_new obj 0 m hash_algo
     \<and> codenamize_particles hashlib_new None adjectives m hash_algo =
         Inr (Space_Size (effectiveNounSize m))
     \<and> (obj_bytes ob = Inr bs \<longrightarrow> obj_hash_of hashlib_new hash_algo bs = Inr x \<longrightarrow>
         codenamize_particles hashlib_new (Some ob) adjectives m hash_algo =
           Inr (Particles [effective_words NOUNS m ! (x mod effectiveNounSize m)]))"
proof -
  from assms have n: "nat adjectives = 0" by simp
  have same: "codenamize_particles hashlib_new obj adjectives m hash_algo =
       codenamize_particles hashlib_new obj 0 m hash_algo"
    by (simp add: codenamize_particles_def particle_lists_effective n)
  have none: "codenamize_particles hashlib_new None adjectives m hash_algo =
         Inr (Space_Size (effectiveNounSize m))"
    by (simp add: codenamize_particles_None n)
  have some: "codenamize_particles hashlib_new (Some ob) adjectives m hash_algo =
           Inr (Particles [effective_words NOUNS m ! (x mod effectiveNounSize m)])"
    if "obj_bytes ob = Inr bs" "obj_hash_of hashlib_new hash_algo bs = Inr x"
  proof -
    have "effectiveNounSize m * effectiveAdjectiveSize m ^ nat adjectives \<le> 2 ^ 53"
      by (rule space_small) (simp add: n)
    from codenamize_particles_exact [OF that this] show ?thesis
      by (simp add: n decode_particles_0)
  qed
  from same none some show ?thesis by blast
qed

theorem C10_negative_adjectives_witness:
  "(- 1 :: int) < 0
   \<and> codenamize_particles (constant_hashlib [1]) (Some (PyBytes [])) (- 1) 3 ''md5'' =
       codenamize_particles (constant_hashlib [1]) (Some (PyBytes [])) 0 3 ''md5''
   \<and> codenamize_particles (constant_hashlib [1]) None (- 1) 3 ''md5'' =
       Inr (Space_Size (effectiveNounSize 3))
   \<and> obj_bytes (PyBytes []) = Inr []
   \<and> obj_hash_of (constant_hashlib [1]) ''md5'' [] = Inr 36413321723440003717
   \<and> codenamize_particles (constant_hashlib [1]) (Some (PyBytes [])) (- 1) 3 ''md5'' =
       Inr (Particles [effective_words NOUNS 3 ! (36413321723440003717 mod effectiveNounSize 3)])"
proof -
  have b: "obj_bytes (PyBytes []) = Inr []" by (simp add: obj_bytes_def)
  have h: "obj_hash_of (constant_hashlib [1]) ''md5'' [] = Inr 36413321723440003717"
    by (simp add: obj_hash_of_Digest [of _ _ "\<lambda>bs. [1]"] constant_hashlib_def big_endian_def)
  have neg: "(- 1 :: int) < 0" by simp
  from C10_negative_adjectives [OF neg, where hashlib_new = "constant_hashlib [1]"
      and obj = "Some (PyBytes [])" and m = 3 and hash_algo = "''md5''" and ob = "PyBytes []"
      and bs = "[]" and x = "36413321723440003717"] b h neg
  show ?thesis by blast
qed


section \<open>The codename where the space is below \<open>2\<^sup>5\<^sup>3\<close>\<close>

lemma suffix_str_join: "suffix (str_join sep ws) (str_join sep (w # ws))"
  by (cases ws) (simp_all add: suffix_def)

lemma capitalize_all_Inr:
  "[] \<notin> set ps \<Longrightarrow> capitalize_all ps = Inr (map (\<lambda>p. upper (hd p) # tl p) ps)"
  by (induction ps) (auto split: list.splits)

lemma codenamize_exact:
  assumes bytes: "obj_bytes ob = Inr bs"
    and hash: "obj_hash_of hashlib_new hash_algo bs = Inr x"
    and small: "effectiveNounSize m * effectiveAdjectiveSize m ^ nat adjectives \<le> 2 ^ 53"
  shows "codenamize hashlib_new (Some ob) adjectives m join capitalize hash_algo =
     Inr (str_join (case join of None \<Rightarrow> [] | Some j \<Rightarrow> j)
       (if capitalize then map (\<lambda>p. upper (hd p) # tl p) (decode_particles x (nat adjectives) m)
        else decode_particles x (nat adjectives) m))"
  using codenamize_particles_exact [OF assms]
  by (simp add: codenamize_def capitalize_all_Inr decode_particles_no_empty_word)

lemma codename_suffix_step:
  assumes bytes: "obj_bytes ob = Inr bs"
    and hash: "obj_hash_of hashlib_new hash_algo bs = Inr x"
    and small: "effectiveNounSize m * effectiveAdjectiveSize m ^ Suc n \<le> 2 ^ 53"
  shows "\<exists>c c'. codenamize hashlib_new (Some ob) (int n) m join capitalize hash_algo = Inr c
     \<and> codenamize hashlib_new (Some ob) (int (Suc n)) m join capitalize hash_algo = Inr c'
     \<and> suffix c c'"
proof -
  have pos: "1 \<le> effectiveAdjectiveSize m"
    using effectiveAdjectiveSize_bounds [of m] by simp
  have "effectiveAdjectiveSize m ^ n \<le> effectiveAdjectiveSize m ^ Suc n"
    using pos by (intro power_increasing) simp_all
  then have mono: "effectiveNounSize m * effectiveAdjectiveSize m ^ n
      \<le> effectiveNounSize m * effectiveAdjectiveSize m ^ Suc n"
    by (rule mult_le_mono2)
  have small': "effectiveNounSize m * effectiveAdjectiveSize m ^ nat (int n) \<le> 2 ^ 53"
    unfolding nat_int using mono small by (rule order_trans)
  have small'': "effectiveNounSize m * effectiveAdjectiveSize m ^ nat (int (Suc n)) \<le> 2 ^ 53"
    unfolding nat_int by (rule small)
  obtain w where step: "decode_particles x (Suc n) m = w # decode_particles x n m"
    using decode_particles_Suc by blast
  show ?thesis
    using codenamize_exact [OF bytes hash small', of join capitalize]
      codenamize_exact [OF bytes hash small'', of join capitalize]
    by (simp add: step suffix_str_join del: of_nat_Suc)
qed

lemma codenamize_hash_error:
  assumes "obj_bytes ob = Inl e \<or> (\<exists>bs. obj_bytes ob = Inr bs \<and> obj_hash_of hashlib_new hash_algo bs = Inl e)"
  shows "codenamize hashlib_new (Some ob) adjectives m join capitalize hash_algo = Inl e"
  using assms
  by (auto simp: codenamize_def codenamize_particles_def particle_lists_effective)

text \<open>
  C7: for every object and every fixed ceiling, join string, capitalisation and hash
  algorithm, the codename with 0 adjectives is a suffix of the codename with 1 adjective,
  which is a suffix of the codename with 2 adjectives. Where the object cannot be encoded
  or hashed, the three calls raise the same error.
\<close>

theorem C7_codenames_are_suffixes:
  "(\<exists>c0 c1 c2.
      codenamize hashlib_new (Some ob) 0 m join capitalize hash_algo = Inr c0
    \<and> codenamize hashlib_new (Some ob) 1 m join capitalize hash_algo = Inr c1
    \<and> codenamize hashlib_new (Some ob) 2 m join capitalize hash_algo = Inr c2
    \<and> suffix c0 c1 \<and> suffix c1 c2)
   \<or> (\<exists>e.
      codenamize hashlib_new (Some ob) 0 m join capitalize hash_algo = Inl e
    \<and> codenamize hashlib_new (Some ob) 1 m join capitalize hash_algo = Inl e
    \<and> codenamize hashlib_new (Some ob) 2 m join capitalize hash_algo = Inl e)"
proof (cases "\<exists>bs x. obj_bytes ob = Inr bs \<and> obj_hash_of hashlib_new hash_algo bs = Inr x")
  case True
  then obtain bs x where bytes: "obj_bytes ob = Inr bs"
    and hash: "obj_hash_of hashlib_new hash_algo bs = Inr x" by blast
  have s1: "effectiveNounSize m * effectiveAdjectiveSize m ^ Suc 0 \<le> 2 ^ 53"
    by (rule space_small) simp
  have s2: "effectiveNounSize m * effectiveAdjectiveSize m ^ Suc 1 \<le> 2 ^ 53"
    by (rule space_small) simp
  from codename_suffix_step [OF bytes hash s1, of join capitalize]
    codename_suffix_step [OF bytes hash s2, of join capitalize]
  show ?thesis by auto
next
  case False
  then have "\<exists>e. obj_bytes ob = Inl e
      \<or> (\<exists>bs. obj_bytes ob = Inr bs \<and> obj_hash_of hashlib_new hash_algo bs = Inl e)"
    by (metis sum.exhaust)
  then obtain e where "obj_bytes ob = Inl e
      \<or> (\<exists>bs. obj_bytes ob = Inr bs \<and> obj_hash_of hashlib_new hash_algo bs = Inl e)" ..
  then have "codenamize hashlib_new (Some ob) adjectives m join capitalize hash_algo = Inl e"
    for adjectives by (rule codenamize_hash_error)
  then show ?thesis by blast
qed


section \<open>Words at positions of the sorted lists\<close>

lemma LengthIndex_NOUNS_5: "LengthIndex NOUNS 5 = 390"
  by (simp add: LengthIndex_def NOUNS_def length_filter_sort_key upto5_NOUNS)

lemma LengthIndex_ADJECTIVES_5: "LengthIndex ADJECTIVES 5 = 71"
  by (simp add: LengthIndex_def ADJECTIVES_def length_filter_sort_key upto5_ADJECTIVES)

lemma effectiveNounSize_5: "effectiveNounSize 5 = 390"
  by (simp add: effectiveNounSize_def normalized_ceiling_def LengthIndex_NOUNS_5)

lemma effectiveAdjectiveSize_5: "effectiveAdjectiveSize 5 = 71"
  by (simp add: effectiveAdjectiveSize_def normalized_ceiling_def LengthIndex_ADJECTIVES_5)

lemma effectiveNounSize_0: "effectiveNounSize 0 = 554"
  by (simp add: effectiveNounSize_def normalized_ceiling_def length_NOUNS)

lemma effectiveAdjectiveSize_0: "effectiveAdjectiveSize 0 = 642"
  by (simp add: effectiveAdjectiveSize_def normalized_ceiling_def length_ADJECTIVES)

lemma effective_words_0: "effective_words ws 0 = ws"
  by (simp add: effective_words_def normalized_ceiling_def)

lemma effective_NOUNS_5: "effective_words NOUNS 5 = take 390 NOUNS"
  using take_LengthIndex [OF sorted_NOUNS, of 5]
  by (simp add: effective_words_def normalized_ceiling_def LengthIndex_NOUNS_5)

lemma effective_ADJECTIVES_5: "effective_words ADJECTIVES 5 = take 71 ADJECTIVES"
  using take_LengthIndex [OF sorted_ADJECTIVES, of 5]
  by (simp add: effective_words_def normalized_ceiling_def LengthIndex_ADJECTIVES_5)

lemma NOUNS_0: "NOUNS ! 0 = ''ox''"
proof -
  have "0 < length (filter (\<lambda>w. length w = 2) NOUNS_unsorted)"
    by (simp add: words2_NOUNS)
  then have "sort_key length NOUNS_unsorted ! (length (filter (\<lambda>w. length w < 2) NOUNS_unsorted) + 0)
      = filter (\<lambda>w. length w = 2) NOUNS_unsorted ! 0"
    by (rule sort_key_nth)
  then show ?thesis by (simp add: NOUNS_def shorter2_NOUNS words2_NOUNS)
qed

lemma NOUNS_273: "NOUNS ! 273 = ''flare''"
proof -
  have "48 < length (filter (\<lambda>w. length w = 5) NOUNS_unsorted)"
    by (simp add: words5_NOUNS)
  then have "sort_key length NOUNS_unsorted ! (length (filter (\<lambda>w. length w < 5) NOUNS_unsorted) + 48)
      = filter (\<lambda>w. length w = 5) NOUNS_unsorted ! 48"
    by (rule sort_key_nth)
  then show ?thesis by (simp add: NOUNS_def shorter5_NOUNS words5_NOUNS)
qed

lemma ADJECTIVES_26: "ADJECTIVES ! 26 = ''quiet''"
proof -
  have "2 < length (filter (\<lambda>w. length w = 5) ADJECTIVES_unsorted)"
    by (simp add: words5_ADJECTIVES)
  then have "sort_key length ADJECTIVES_unsorted
        ! (length (filter (\<lambda>w. length w < 5) ADJECTIVES_unsorted) + 2)
      = filter (\<lambda>w. length w = 5) ADJECTIVES_unsorted ! 2"
    by (rule sort_key_nth)
  then show ?thesis by (simp add: ADJECTIVES_def shorter5_ADJECTIVES words5_ADJECTIVES)
qed

lemma ADJECTIVES_403: "ADJECTIVES ! 403 = ''shifting''"
proof -
  have "40 < length (filter (\<lambda>w. length w = 8) ADJECTIVES_unsorted)"
    by (simp add: words8_ADJECTIVES)
  then have "sort_key length ADJECTIVES_unsorted
        ! (length (filter (\<lambda>w. length w < 8) ADJECTIVES_unsorted) + 40)
      = filter (\<lambda>w. length w = 8) ADJECTIVES_unsorted ! 40"
    by (rule sort_key_nth)
  then show ?thesis by (simp add: ADJECTIVES_def shorter8_ADJECTIVES words8_ADJECTIVES)
qed

lemma ADJECTIVES_404: "ADJECTIVES ! 404 = ''thinning''"
proof -
  have "41 < length (filter (\<lambda>w. length w = 8) ADJECTIVES_unsorted)"
    by (simp add: words8_ADJECTIVES)
  then have "sort_key length ADJECTIVES_unsorted
        ! (length (filter (\<lambda>w. length w < 8) ADJECTIVES_unsorted) + 41)
      = filter (\<lambda>w. length w = 8) ADJECTIVES_unsorted ! 41"
    by (rule sort_key_nth)
  then show ?thesis by (simp add: ADJECTIVES_def shorter8_ADJECTIVES words8_ADJECTIVES)
qed

lemma ox_in_NOUNS: "''ox'' \<in> set NOUNS"
proof -
  have "''ox'' \<in> set (filter (\<lambda>w. length w = 2) NOUNS_unsorted)"
    by (simp add: words2_NOUNS)
  then show ?thesis by (simp add: NOUNS_def)
qed


section \<open>The digests of the examples\<close>

lemma big_endian_md5_digest_1:
  "big_endian md5_digest_1 = 261578874264819908609102035485573088411"
  by (simp add: big_endian_def md5_digest_1_def)

lemma big_endian_md5_digest_100001:
  "big_endian md5_digest_100001 = 301270727491450622224268211011978776899"
  by (simp add: big_endian_def md5_digest_100001_def)

lemma big_endian_md5_digest_144:
  "big_endian md5_digest_144 = 13343077593029765756387037956717729462"
  by (simp add: big_endian_def md5_digest_144_def)

lemma digits10_100001: "digits10 100001 = [49, 48, 48, 48, 48, 49]"
  by (simp add: digits10.simps)

lemma digits10_144: "digits10 144 = [49, 52, 52]"
  by (simp add: digits10.simps)

lemma obj_bytes_100001:
  "obj_bytes (PyInt 100001) = Inr [49, 48, 48, 48, 48, 49]"
  "obj_bytes (PyText (text_of ''100001'')) = Inr [49, 48, 48, 48, 48, 49]"
  "obj_bytes (PyBytes [49, 48, 48, 48, 48, 49]) = Inr [49, 48, 48, 48, 48, 49]"
  by (simp_all add: obj_bytes_PyInt str_int_def digits10_100001 obj_bytes_def text_of_def
      utf8_code_point_def)

lemma obj_bytes_144: "obj_bytes (PyInt 144) = Inr [49, 52, 52]"
  by (simp add: obj_bytes_PyInt str_int_def digits10_144)

lemma obj_bytes_text_1: "obj_bytes (PyText (text_of ''1'')) = Inr [49]"
  by (simp add: obj_bytes_def text_of_def utf8_code_point_def)


section \<open>The claims that the source does not keep\<close>

lemma replicate_6: "replicate 6 x = [x, x, x, x, x, x]"
  by (simp add: eval_nat_numeral)

text \<open>
  The divisions of the loop for the text \<^verbatim>\<open>1\<close> with six adjectives and no ceiling. The
  first two dividends are above \<open>2\<^sup>5\<^sup>3\<close>; the first quotient is not the floor, which is
  69749207055414055.
\<close>

lemma true_division_1: "int_of_true_division 38641060708699387015 554 = Inr 69749207055414056"
  by (simp add: int_of_true_division_def floor_log2_quotient_def round_half_even_def
      bit_length.simps Let_def)

lemma true_division_2: "int_of_true_division 69749207055414056 642 = Inr 108643624696906"
  by (simp add: int_of_true_division_def floor_log2_quotient_def round_half_even_def
      bit_length.simps Let_def)

lemma true_division_3: "int_of_true_division 108643624696906 642 = Inr 169226829745"
  by (simp add: int_of_true_division_def floor_log2_quotient_def round_half_even_def
      bit_length.simps Let_def)

lemma true_division_4: "int_of_true_division 169226829745 642 = Inr 263593192"
  by (simp add: int_of_true_division_def floor_log2_quotient_def round_half_even_def
      bit_length.simps Let_def)

lemma true_division_5: "int_of_true_division 263593192 642 = Inr 410581"
  by (simp add: int_of_true_division_def floor_log2_quotient_def round_half_even_def
      bit_length.simps Let_def)

lemma true_division_6: "int_of_true_division 410581 642 = Inr 639"
  by (simp add: int_of_true_division_def floor_log2_quotient_def round_half_even_def
      bit_length.simps Let_def)

lemma true_division_7: "int_of_true_division 639 642 = Inr 0"
  by (simp add: int_of_true_division_def floor_log2_quotient_def round_half_even_def
      bit_length.simps Let_def)

lemma length_decode_particles: "length (decode_particles x n m) = Suc n"
  by (simp add: decode_particles_eq mixed_radix_length)

lemma last_decode_particles:
  "last (decode_particles x n m) = effective_words NOUNS m ! (x mod effectiveNounSize m)"
proof (induction n)
  case 0
  then show ?case by (simp add: decode_particles_0)
next
  case (Suc n)
  obtain w where "decode_particles x (Suc n) m = w # decode_particles x n m"
    using decode_particles_Suc by blast
  moreover have "decode_particles x n m \<noteq> []"
    using length_decode_particles [of x n m] by auto
  ultimately show ?case using Suc by simp
qed

text \<open>
  Where the space is at most \<open>2\<^sup>5\<^sup>3\<close>, the particles are the ones the specification
  describes: \<open>a + 1\<close> words, the last of them the noun.
\<close>

lemma codenamize_particles_SelectParticles:
  assumes "hashlib_new hash_algo = Some (Digest d)"
    and "obj_bytes ob = Inr bs"
    and "d bs \<noteq> []"
    and "effectiveNounSize m * effectiveAdjectiveSize m ^ nat a \<le> 2 ^ 53"
  shows "codenamize_particles hashlib_new (Some ob) a m hash_algo =
      Inr (Particles (SelectParticles (big_endian (d bs)) a m))"
    and "length (SelectParticles (big_endian (d bs)) a m) = nat a + 1"
    and "last (SelectParticles (big_endian (d bs)) a m) \<in> set NOUNS"
proof -
  have hash: "obj_hash_of hashlib_new hash_algo bs
      = Inr (big_endian (d bs) * 36413321723440003717)"
    using assms(1, 3) by (rule obj_hash_of_Digest)
  from codenamize_particles_exact [OF assms(2) hash assms(4)]
  show "codenamize_particles hashlib_new (Some ob) a m hash_algo =
      Inr (Particles (SelectParticles (big_endian (d bs)) a m))"
    by (simp add: SelectParticles_def)
  show "length (SelectParticles (big_endian (d bs)) a m) = nat a + 1"
    by (simp add: SelectParticles_def length_decode_particles)
  have "x mod effectiveNounSize m < length (effective_words NOUNS m)" for x
    using effectiveNounSize_bounds [of m] by (simp add: length_effective_NOUNS)
  then have "effective_words NOUNS m ! (x mod effectiveNounSize m) \<in> set NOUNS" for x
    using effective_words_subset [of NOUNS m] nth_mem by blast
  then show "last (SelectParticles (big_endian (d bs)) a m) \<in> set NOUNS"
    by (simp add: SelectParticles_def last_decode_particles)
qed

text \<open>
  C1 says that the index is decoded with \<open>index = floor(index / len(L))\<close> for every
  adjective count. The source divides with \<^verbatim>\<open>int(index / len(p))\<close>, which in Python 3 is
  the float nearest to the quotient: for the text \<^verbatim>\<open>1\<close>, six adjectives, no ceiling and
  MD5 the function returns the adjective at position 404 (\<^verbatim>\<open>thinning\<close>) where the
  decoding of the specification selects the one at position 403 (\<^verbatim>\<open>shifting\<close>).
\<close>

theorem C1_true_division_changes_the_words:
  assumes "hashlib_new ''md5'' = Some (Digest md5)" and "md5 [49] = md5_digest_1"
  shows "codenamize_particles hashlib_new (Some (PyText (text_of ''1''))) 6 0 ''md5'' =
      Inr (Particles [ADJECTIVES ! 639, ADJECTIVES ! 343, ADJECTIVES ! 190, ADJECTIVES ! 481,
        ADJECTIVES ! 616, ADJECTIVES ! 404, NOUNS ! 545])
    \<and> SelectParticles (big_endian (md5 [49])) 6 0 =
      [ADJECTIVES ! 639, ADJECTIVES ! 343, ADJECTIVES ! 190, ADJECTIVES ! 481,
        ADJECTIVES ! 616, ADJECTIVES ! 403, NOUNS ! 545]
    \<and> ADJECTIVES ! 404 = ''thinning'' \<and> ADJECTIVES ! 403 = ''shifting''"
proof -
  have ne: "md5 [49] \<noteq> []" using assms(2) by (simp add: md5_digest_1_def)
  have "obj_hash_of hashlib_new ''md5'' [49] = Inr (big_endian (md5 [49]) * 36413321723440003717)"
    using assms(1) ne by (rule obj_hash_of_Digest)
  then have hash: "obj_hash_of hashlib_new ''md5'' [49]
      = Inr (261578874264819908609102035485573088411 * 36413321723440003717)"
    by (simp only: assms(2) big_endian_md5_digest_1)
  have code: "codenamize_particles hashlib_new (Some (PyText (text_of ''1''))) 6 0 ''md5'' =
      Inr (Particles [ADJECTIVES ! 639, ADJECTIVES ! 343, ADJECTIVES ! 190, ADJECTIVES ! 481,
        ADJECTIVES ! 616, ADJECTIVES ! 404, NOUNS ! 545])"
    by (simp add: codenamize_particles_def particle_lists_effective effective_words_0
        total_words_of_prod Let_def obj_bytes_text_1
        hash replicate_6 length_NOUNS length_ADJECTIVES true_division_1 true_division_2
        true_division_3 true_division_4 true_division_5 true_division_6 true_division_7)
  have spec: "SelectParticles (big_endian (md5 [49])) 6 0 =
      [ADJECTIVES ! 639, ADJECTIVES ! 343, ADJECTIVES ! 190, ADJECTIVES ! 481,
        ADJECTIVES ! 616, ADJECTIVES ! 403, NOUNS ! 545]"
    by (simp add: assms(2) big_endian_md5_digest_1 SelectParticles_def decode_particles_eq
        effective_words_0 effectiveNounSize_0 effectiveAdjectiveSize_0 replicate_6
        length_NOUNS length_ADJECTIVES)
  from code spec ADJECTIVES_404 ADJECTIVES_403 show ?thesis by blast
qed

theorem C1_true_division_changes_the_words_witness:
  "constant_hashlib md5_digest_1 ''md5'' = Some (Digest (\<lambda>bs. md5_digest_1))
    \<and> codenamize_particles (constant_hashlib md5_digest_1) (Some (PyText (text_of ''1''))) 6 0
        ''md5'' =
      Inr (Particles [ADJECTIVES ! 639, ADJECTIVES ! 343, ADJECTIVES ! 190, ADJECTIVES ! 481,
        ADJECTIVES ! 616, ADJECTIVES ! 404, NOUNS ! 545])
    \<and> SelectParticles (big_endian md5_digest_1) 6 0 =
      [ADJECTIVES ! 639, ADJECTIVES ! 343, ADJECTIVES ! 190, ADJECTIVES ! 481,
        ADJECTIVES ! 616, ADJECTIVES ! 403, NOUNS ! 545]
    \<and> ADJECTIVES ! 404 = ''thinning'' \<and> ADJECTIVES ! 403 = ''shifting''"
proof -
  have h: "constant_hashlib md5_digest_1 ''md5'' = Some (Digest (\<lambda>bs. md5_digest_1))"
    by (simp add: constant_hashlib_def)
  from C1_true_division_changes_the_words
      [of "constant_hashlib md5_digest_1" "\<lambda>bs. md5_digest_1", OF h refl] h
  show ?thesis by blast
qed

text \<open>
  C3 says that the space sizes for ceiling 5 and 0, 1 and 2 adjectives are 742, 241150 and
  78373750, the figures of the module's docstring. With the word lists of the source they
  are 390, 27690 and 1965990: 390 nouns and 71 adjectives have at most five letters.
\<close>

theorem C3_space_sizes_with_ceiling_5:
  "codenamize_space hashlib_new 0 5 hash_algo = Inr (Space_Size 390)
   \<and> codenamize_space hashlib_new 1 5 hash_algo = Inr (Space_Size 27690)
   \<and> codenamize_space hashlib_new 2 5 hash_algo = Inr (Space_Size 1965990)"
  by (simp add: codenamize_space_def codenamize_particles_None effectiveNounSize_5
      effectiveAdjectiveSize_5)

text \<open>
  C4 says that \<^verbatim>\<open>codenamize\<close> of the integer 100001, of the string \<^verbatim>\<open>100001\<close> and of
  the same bytes, with one adjective, ceiling 5, \<^verbatim>\<open>-\<close> and MD5, is \<^verbatim>\<open>funny-boat\<close>, as
  the module's test prints it. The three calls do return one string, but with the word
  lists of the source it is \<^verbatim>\<open>quiet-flare\<close>.
\<close>

theorem C4_codename_of_100001:
  assumes "hashlib_new ''md5'' = Some (Digest md5)"
    and "md5 [49, 48, 48, 48, 48, 49] = md5_digest_100001"
  shows "codenamize hashlib_new (Some (PyInt 100001)) 1 5 (Some ''-'') False ''md5''
      = Inr ''quiet-flare''
    \<and> codenamize hashlib_new (Some (PyText (text_of ''100001''))) 1 5 (Some ''-'') False ''md5''
      = Inr ''quiet-flare''
    \<and> codenamize hashlib_new (Some (PyBytes [49, 48, 48, 48, 48, 49])) 1 5 (Some ''-'') False
        ''md5''
      = Inr ''quiet-flare''"
proof -
  have ne: "md5 [49, 48, 48, 48, 48, 49] \<noteq> []"
    using assms(2) by (simp add: md5_digest_100001_def)
  have "obj_hash_of hashlib_new ''md5'' [49, 48, 48, 48, 48, 49]
      = Inr (big_endian (md5 [49, 48, 48, 48, 48, 49]) * 36413321723440003717)"
    using assms(1) ne by (rule obj_hash_of_Digest)
  then have hash: "obj_hash_of hashlib_new ''md5'' [49, 48, 48, 48, 48, 49]
      = Inr (301270727491450622224268211011978776899 * 36413321723440003717)"
    by (simp only: assms(2) big_endian_md5_digest_100001)
  have small: "effectiveNounSize 5 * effectiveAdjectiveSize 5 ^ nat 1 \<le> 2 ^ 53"
    by (rule space_small) simp
  have words: "decode_particles (301270727491450622224268211011978776899 * 36413321723440003717)
      (nat 1) 5 = [''quiet'', ''flare'']"
    by (simp add: decode_particles_eq effectiveNounSize_5 effectiveAdjectiveSize_5
        effective_NOUNS_5 effective_ADJECTIVES_5 length_NOUNS length_ADJECTIVES NOUNS_273
        ADJECTIVES_26)
  have "codenamize hashlib_new (Some ob) 1 5 (Some ''-'') False ''md5'' = Inr ''quiet-flare''"
    if "obj_bytes ob = Inr [49, 48, 48, 48, 48, 49]" for ob
    using codenamize_exact [OF that hash small, of "Some ''-''" False]
    by (simp only: words if_False option.case str_join.simps append.simps)
  with obj_bytes_100001 show ?thesis by blast
qed

theorem C4_codename_of_100001_witness:
  "constant_hashlib md5_digest_100001 ''md5'' = Some (Digest (\<lambda>bs. md5_digest_100001))
    \<and> codenamize (constant_hashlib md5_digest_100001) (Some (PyInt 100001)) 1 5 (Some ''-'')
        False ''md5''
      = Inr ''quiet-flare''
    \<and> codenamize (constant_hashlib md5_digest_100001) (Some (PyText (text_of ''100001''))) 1 5
        (Some ''-'') False ''md5''
      = Inr ''quiet-flare''"
proof -
  have h: "constant_hashlib md5_digest_100001 ''md5'' = Some (Digest (\<lambda>bs. md5_digest_100001))"
    by (simp add: constant_hashlib_def)
  from C4_codename_of_100001
      [of "constant_hashlib md5_digest_100001" "\<lambda>bs. md5_digest_100001", OF h refl] h
  show ?thesis by blast
qed

text \<open>
  C8 says that every word of both lists has at least three letters, so that every particle
  has. The noun list of the source holds the word \<^verbatim>\<open>ox\<close>, the first of the sorted list:
  it is the codename of the integer 144 with no adjective.
\<close>

theorem C8_noun_of_two_letters:
  assumes "hashlib_new ''md5'' = Some (Digest md5)" and "md5 [49, 52, 52] = md5_digest_144"
  shows "''ox'' \<in> set NOUNS \<and> length ''ox'' = 2
    \<and> NOUNS_LENGTHS 3 = Some (length (filter (\<lambda>w. length w \<le> 3) NOUNS))
    \<and> codenamize_particles hashlib_new (Some (PyInt 144)) 0 0 ''md5'' = Inr (Particles [''ox''])
    \<and> codenamize hashlib_new (Some (PyInt 144)) 0 0 (Some ''-'') False ''md5'' = Inr ''ox''"
proof -
  have ne: "md5 [49, 52, 52] \<noteq> []" using assms(2) by (simp add: md5_digest_144_def)
  have "obj_hash_of hashlib_new ''md5'' [49, 52, 52]
      = Inr (big_endian (md5 [49, 52, 52]) * 36413321723440003717)"
    using assms(1) ne by (rule obj_hash_of_Digest)
  then have hash: "obj_hash_of hashlib_new ''md5'' [49, 52, 52]
      = Inr (13343077593029765756387037956717729462 * 36413321723440003717)"
    by (simp only: assms(2) big_endian_md5_digest_144)
  have small: "effectiveNounSize 0 * effectiveAdjectiveSize 0 ^ nat 0 \<le> 2 ^ 53"
    by (rule space_small) simp
  have words: "decode_particles (13343077593029765756387037956717729462 * 36413321723440003717)
      (nat 0) 0 = [''ox'']"
    by (simp add: decode_particles_0 effectiveNounSize_0 effective_words_0 NOUNS_0)
  have particles: "codenamize_particles hashlib_new (Some (PyInt 144)) 0 0 ''md5''
      = Inr (Particles [''ox''])"
    using codenamize_particles_exact [OF obj_bytes_144 hash small] by (simp only: words)
  have codename: "codenamize hashlib_new (Some (PyInt 144)) 0 0 (Some ''-'') False ''md5''
      = Inr ''ox''"
    using codenamize_exact [OF obj_bytes_144 hash small, of "Some ''-''" False]
    by (simp only: words if_False option.case str_join.simps)
  have lengths: "NOUNS_LENGTHS 3 = Some (length (filter (\<lambda>w. length w \<le> 3) NOUNS))"
    by (simp add: NOUNS_LENGTHS_def LENGTHS_def)
  from ox_in_NOUNS particles codename lengths show ?thesis by simp
qed

theorem C8_noun_of_two_letters_witness:
  "constant_hashlib md5_digest_144 ''md5'' = Some (Digest (\<lambda>bs. md5_digest_144))
    \<and> ''ox'' \<in> set NOUNS \<and> length ''ox'' = 2
    \<and> codenamize_particles (constant_hashlib md5_digest_144) (Some (PyInt 144)) 0 0 ''md5''
      = Inr (Particles [''ox''])
    \<and> codenamize (constant_hashlib md5_digest_144) (Some (PyInt 144)) 0 0 (Some ''-'') False
        ''md5''
      = Inr ''ox''"
proof -
  have h: "constant_hashlib md5_digest_144 ''md5'' = Some (Digest (\<lambda>bs. md5_digest_144))"
    by (simp add: constant_hashlib_def)
  from C8_noun_of_two_letters
      [of "constant_hashlib md5_digest_144" "\<lambda>bs. md5_digest_144", OF h refl] h
  show ?thesis by blast
qed


end
